theory Spec2Isabelle
  imports Complex_Main "HOL-Library.Log_Nat"
begin

section \<open>Escrow settlement engine of \<open>lib/actions/escrow.actions.ts\<close>\<close>

subsection \<open>Time values and stored timestamps\<close>

text \<open>
  \<open>new Date()\<close> is a time value: an integer number of milliseconds since the epoch.
  The store keeps timestamps as strings. The model keeps what \<open>new Date(s)\<close> makes of
  such a string: \<open>Timestamp t\<close> for a string that parses to the instant \<open>t\<close> (what
  \<open>toISOString\<close> writes for \<open>t\<close>), \<open>Unparsable\<close> for a non-empty string that gives
  Invalid Date. An optional field that is missing, \<open>null\<close> or the empty string is falsy in
  \<open>if (x)\<close>; all three are \<open>None\<close>.
\<close>

text \<open>An operation reads the clock wherever it writes \<open>new Date()\<close>; the model gives each
  operation one reading, its argument \<open>now\<close>.\<close>

type_synonym time_value = int

datatype date_string = Timestamp time_value | Unparsable

text \<open>\<open>now >= new Date(s)\<close> and \<open>now > new Date(s)\<close>: a comparison with Invalid Date
  (time value NaN) is false.\<close>

fun date_ge :: "time_value \<Rightarrow> date_string \<Rightarrow> bool" where
  "date_ge now (Timestamp t) = (t \<le> now)"
| "date_ge now Unparsable = False"

fun date_gt :: "time_value \<Rightarrow> date_string \<Rightarrow> bool" where
  "date_gt now (Timestamp t) = (t < now)"
| "date_gt now Unparsable = False"

text \<open>JavaScript truthiness of an optional string: present and not empty.\<close>

fun truthy_string :: "string option \<Rightarrow> bool" where
  "truthy_string None = False"
| "truthy_string (Some s) = (s \<noteq> [])"

subsection \<open>Data model\<close>

text \<open>
  The TypeScript declarations of the documents (\<open>types/extended.d.ts\<close>) are not among the
  sources. The types below have the fields that the code reads and writes, with the
  attribute lists of the README and the data model of the specification.
\<close>

text \<open>Modelled from the spec: the declaration of the \<open>status\<close> attribute of an
  \<open>escrow_transactions\<close> document; its values are those of the README's attribute list
  and of the specification's state machine.\<close>

datatype escrow_status =
    pending_payment | payment_received | shipped | in_transit | delivered | confirmed
  | auto_released | released | disputed | refunded | cancelled

text \<open>Modelled from the spec: the declaration of the \<open>type\<close> of a settlement condition,
  a fixed enumeration with an extensible custom kind. The seven named tags are the cases
  of the \<open>switch\<close> of \<open>evaluateCondition\<close>; \<open>other_type\<close> stands for every tag that
  \<open>switch\<close> has no case for.\<close>

datatype condition_type =
    tracking_confirmation | time_based | buyer_confirmation | delivery_confirmation
  | milestone_based | inspection_period | dual_signature | other_type string

text \<open>The \<open>itemType\<close> of a transaction.\<close>

datatype item_type = physical_goods | digital_goods | service | subscription

record milestone =
  milestone_id :: string
  milestone_description :: string
  percentage :: int
  completed :: bool

text \<open>Modelled from the spec: the declaration of the \<open>config\<close> bag of a condition, a
  type-specific key/value bag. It has every key the code reads or writes, each optional;
  the bag itself is always there, as the code reads \<open>condition.config.key\<close> unguarded.\<close>

record condition_config =
  requireTracking :: "bool option"
  trackingNumber :: "string option"
  carrierName :: "string option"
  deliveryConfirmed :: "bool option"
  confirmationRequired :: "bool option"
  autoReleaseDays :: "int option"
  autoReleaseAt :: "date_string option"
  milestones :: "milestone list option"
  inspectionDeadline :: "date_string option"
  buyerSigned :: "bool option"
  sellerSigned :: "bool option"

text \<open>Modelled from the spec: the declaration of \<open>SettlementCondition\<close>, with the fields
  of the specification's data model; \<open>required\<close> may be absent.\<close>

record settlement_condition =
  cond_type :: condition_type
  description :: string
  priority :: int
  required :: "bool option"
  config :: condition_config
  isMet :: bool
  metAt :: "date_string option"

record status_entry =
  entry_status :: escrow_status
  entry_timestamp :: date_string
  entry_triggeredBy :: string
  entry_note :: string

text \<open>The object kept in \<open>shippingDetailsJSON\<close>: the tracking data of \<open>markAsShipped\<close>,
  \<open>shippedAt\<close>, and the \<open>actualDelivery\<close> that \<open>evaluateCondition\<close> reads.\<close>

record shipping_details =
  carrier :: string
  shipping_trackingNumber :: string
  trackingUrl :: "string option"
  estimatedDelivery :: "string option"
  shippedAt :: "date_string option"
  actualDelivery :: "string option"

text \<open>An \<open>escrow_transactions\<close> document, with the attributes the code writes when it
  creates one and those it sets later. The three JSON attributes are kept parsed. Amounts
  are JavaScript numbers; the section on JavaScript numbers says how they are modelled.\<close>

record escrow =
  buyerId :: string
  sellerId :: string
  sellerStripeAccountId :: string
  itemDescription :: string
  itemType :: item_type
  amount :: rat
  platformFee :: rat
  sellerAmount :: rat
  currency :: string
  stripePaymentIntentId :: string
  stripeChargeId :: "string option"
  stripeTransferId :: "string option"
  stripePayoutId :: "string option"
  status :: escrow_status
  statusHistory :: "status_entry list"
  settlementConditions :: "settlement_condition list"
  allConditionsMet :: bool
  shippingDetails :: "shipping_details option"
  disputeReason :: "string option"
  disputedAt :: "date_string option"
  disputePeriodDays :: int
  disputePeriodEndsAt :: "date_string option"

subsection \<open>Evaluating one condition\<close>

text \<open>
  \<open>evaluateCondition(condition, escrow)\<close> with the clock reading \<open>now\<close>. Each case of the
  \<open>switch\<close> assigns \<open>isMet\<close> only where the source does: under \<open>if (config.field)\<close> a
  missing field leaves \<open>isMet\<close> as it was stored. \<open>every\<close> over an empty milestone list
  is true. After the \<open>switch\<close>, \<open>metAt\<close> is written when the condition is met and has
  no \<open>metAt\<close> yet.
\<close>

definition switch_isMet :: "settlement_condition \<Rightarrow> escrow \<Rightarrow> time_value \<Rightarrow> bool" where
  "switch_isMet condition e now =
     (case cond_type condition of
        tracking_confirmation \<Rightarrow>
          (let hasTracking = truthy_string (trackingNumber (config condition));
               isDelivered = (deliveryConfirmed (config condition) = Some True)
           in hasTracking \<and> isDelivered)
      | time_based \<Rightarrow>
          (case autoReleaseAt (config condition) of
             Some releaseDate \<Rightarrow> date_ge now releaseDate
           | None \<Rightarrow> isMet condition)
      | buyer_confirmation \<Rightarrow> (status e = confirmed)
      | delivery_confirmation \<Rightarrow>
          (case shippingDetails e of
             Some shipping \<Rightarrow> truthy_string (actualDelivery shipping)
           | None \<Rightarrow> isMet condition)
      | milestone_based \<Rightarrow>
          (case milestones (config condition) of
             Some ms \<Rightarrow> list_all completed ms
           | None \<Rightarrow> isMet condition)
      | inspection_period \<Rightarrow>
          (case inspectionDeadline (config condition) of
             Some deadline \<Rightarrow> date_ge now deadline \<and> status e \<noteq> disputed
           | None \<Rightarrow> isMet condition)
      | dual_signature \<Rightarrow>
          (buyerSigned (config condition) = Some True
           \<and> sellerSigned (config condition) = Some True)
      | other_type t \<Rightarrow> False)"

definition evaluateCondition ::
  "settlement_condition \<Rightarrow> escrow \<Rightarrow> time_value \<Rightarrow> settlement_condition" where
  "evaluateCondition condition e now =
     (let c1 = condition\<lparr>isMet := switch_isMet condition e now\<rparr>
      in if isMet c1 \<and> metAt c1 = None
         then c1\<lparr>metAt := Some (Timestamp now)\<rparr>
         else c1)"

subsection \<open>The document store and the payment rail\<close>

text \<open>
  The state the operations act on: the \<open>escrow_transactions\<close> collection as a map from
  document id to document, the append-only \<open>escrow_events\<close> collection, the seller
  accounts by user id, the platform configuration if one is stored, and what the payment
  rail has been made to do (every payment intent, transfer, payout and refund created so
  far, in order). Of an audit event the model keeps who and what; its free-text
  description and payload are written and never read.

  The store itself is reliable in the model: reading a document that is not stored throws,
  as \<open>getDocument\<close> does, and writing to a stored document succeeds. The calls to the
  payment rail may throw, each as the environment of the operation says.
\<close>

record escrow_event =
  escrowTransactionId :: string
  eventType :: string
  triggeredBy :: string

record transfer =
  transfer_id :: string
  transfer_amount :: rat
  transfer_currency :: string
  destination :: string
  transfer_group :: string

record payout =
  payout_id :: string
  payout_amount :: rat
  payout_currency :: string
  stripeAccount :: string
  payout_transferId :: string

record refund =
  refund_id :: string
  payment_intent :: string
  refund_amount :: rat

text \<open>A seller's document in the \<open>stripe_accounts\<close> collection, as far as it is read.\<close>

record seller_account =
  stripeAccountId :: string
  chargesEnabled :: bool

text \<open>The singleton of the \<open>escrow_platform_config\<close> collection, as far as it is read.\<close>

record platform_config =
  platformFeePercentage :: rat
  platformFeeFixed :: rat
  stripeFeePercentage :: rat
  stripeFeeFixed :: rat
  defaultDisputePeriodDays :: int
  defaultAutoReleaseDays :: int
  defaultInspectionDays :: int

record payment_intent =
  intent_id :: string
  intent_amount :: rat
  intent_currency :: string

record world =
  escrow_transactions :: "string \<rightharpoonup> escrow"
  escrow_events :: "escrow_event list"
  stripe_accounts :: "string \<rightharpoonup> seller_account"
  escrow_platform_config :: "platform_config option"
  stripe_payment_intents :: "payment_intent list"
  stripe_transfers :: "transfer list"
  stripe_payouts :: "payout list"
  stripe_refunds :: "refund list"

text \<open>
  What the payment rail answers during one operation: each \<open>create\<close> call either throws
  (\<open>Inl\<close> the message) or returns an object with a fresh id (\<open>Inr\<close> the id).
  \<open>ID_unique\<close> is the document id that \<open>ID.unique()\<close> draws.
\<close>

record stripe_env =
  ID_unique :: string
  paymentIntents_create :: "string + string"
  paymentIntents_confirm :: "string + string"
  paymentIntents_capture :: "string + string"
  transfers_create :: "string + string"
  payouts_create :: "string + string"
  refunds_create :: "string + string"

text \<open>\<open>{ success: true }\<close> or \<open>{ success: false, error }\<close>.\<close>

datatype op_result = Success | Failure string

text \<open>The message of the exception \<open>getDocument\<close> throws for an id that is not stored;
  the \<open>catch\<close> of each operation returns it as the error.\<close>

definition document_not_found :: string where
  "document_not_found = ''Document with the requested ID could not be found.''"

text \<open>\<open>database.updateDocument\<close>: change attributes of a stored document.\<close>

definition updateDocument :: "string \<Rightarrow> (escrow \<Rightarrow> escrow) \<Rightarrow> world \<Rightarrow> world" where
  "updateDocument escrowId f w =
     (case escrow_transactions w escrowId of
        None \<Rightarrow> w
      | Some e \<Rightarrow> w\<lparr>escrow_transactions := (escrow_transactions w)(escrowId \<mapsto> f e)\<rparr>)"

text \<open>\<open>logEscrowEvent\<close>: append one audit record.\<close>

definition logEscrowEvent :: "string \<Rightarrow> string \<Rightarrow> string \<Rightarrow> world \<Rightarrow> world" where
  "logEscrowEvent escrowId ty actor w =
     w\<lparr>escrow_events := escrow_events w @
        [\<lparr>escrowTransactionId = escrowId, eventType = ty, triggeredBy = actor\<rparr>]\<rparr>"

definition history_entry :: "escrow_status \<Rightarrow> time_value \<Rightarrow> string \<Rightarrow> string \<Rightarrow> status_entry" where
  "history_entry s now actor note =
     \<lparr>entry_status = s, entry_timestamp = Timestamp now,
      entry_triggeredBy = actor, entry_note = note\<rparr>"

subsection \<open>Updating the config of a condition\<close>

text \<open>\<open>{ ...config, ...updates }\<close>: a key of \<open>updates\<close> replaces the same key of
  \<open>config\<close>.\<close>

definition spread :: "'a option \<Rightarrow> 'a option \<Rightarrow> 'a option" where
  "spread old new = (case new of None \<Rightarrow> old | Some v \<Rightarrow> Some v)"

definition merge_config :: "condition_config \<Rightarrow> condition_config \<Rightarrow> condition_config" where
  "merge_config c u =
     \<lparr>requireTracking = spread (requireTracking c) (requireTracking u),
      trackingNumber = spread (trackingNumber c) (trackingNumber u),
      carrierName = spread (carrierName c) (carrierName u),
      deliveryConfirmed = spread (deliveryConfirmed c) (deliveryConfirmed u),
      confirmationRequired = spread (confirmationRequired c) (confirmationRequired u),
      autoReleaseDays = spread (autoReleaseDays c) (autoReleaseDays u),
      autoReleaseAt = spread (autoReleaseAt c) (autoReleaseAt u),
      milestones = spread (milestones c) (milestones u),
      inspectionDeadline = spread (inspectionDeadline c) (inspectionDeadline u),
      buyerSigned = spread (buyerSigned c) (buyerSigned u),
      sellerSigned = spread (sellerSigned c) (sellerSigned u)\<rparr>"

definition no_updates :: condition_config where
  "no_updates =
     \<lparr>requireTracking = None, trackingNumber = None, carrierName = None,
      deliveryConfirmed = None, confirmationRequired = None, autoReleaseDays = None,
      autoReleaseAt = None, milestones = None, inspectionDeadline = None,
      buyerSigned = None, sellerSigned = None\<rparr>"

text \<open>\<open>conditions.findIndex(p)\<close>, with \<open>None\<close> for \<open>-1\<close>.\<close>

fun findIndex :: "('a \<Rightarrow> bool) \<Rightarrow> 'a list \<Rightarrow> nat option" where
  "findIndex p [] = None"
| "findIndex p (x # xs) =
     (if p x then Some 0 else map_option Suc (findIndex p xs))"

text \<open>\<open>updateCondition\<close>: merge \<open>updates\<close> into the config of the first condition of the
  given type, if there is one. Its \<open>catch\<close> swallows a missing document.\<close>

definition updateCondition ::
  "string \<Rightarrow> condition_type \<Rightarrow> condition_config \<Rightarrow> world \<Rightarrow> world" where
  "updateCondition escrowId conditionType updates w =
     (case escrow_transactions w escrowId of
        None \<Rightarrow> w
      | Some e \<Rightarrow>
          (let conditions = settlementConditions e
           in case findIndex (\<lambda>c. cond_type c = conditionType) conditions of
                None \<Rightarrow> w
              | Some conditionIndex \<Rightarrow>
                  updateDocument escrowId
                    (\<lambda>d. d\<lparr>settlementConditions :=
                       conditions[conditionIndex :=
                         (conditions ! conditionIndex)
                           \<lparr>config := merge_config (config (conditions ! conditionIndex)) updates\<rparr>]\<rparr>)
                    w))"

subsection \<open>Releasing funds\<close>

text \<open>
  \<open>releaseFundsToSeller\<close>. The two guards return before anything is done. A transfer
  that has been created stays created when the payout after it throws: the \<open>catch\<close>
  only reports the message, and the document is written once, after both calls.
  \<open>made_transfer\<close> is the transfer that \<open>stripe.transfers.create\<close> is asked for.
\<close>

definition made_transfer :: "string \<Rightarrow> string \<Rightarrow> escrow \<Rightarrow> transfer" where
  "made_transfer transferId escrowId e =
     \<lparr>transfer_id = transferId, transfer_amount = sellerAmount e,
      transfer_currency = currency e, destination = sellerStripeAccountId e,
      transfer_group = escrowId\<rparr>"

definition releaseFundsToSeller ::
  "stripe_env \<Rightarrow> time_value \<Rightarrow> string \<Rightarrow> world \<Rightarrow> op_result \<times> world" where
  "releaseFundsToSeller env now escrowId w =
     (case escrow_transactions w escrowId of
        None \<Rightarrow> (Failure document_not_found, w)
      | Some e \<Rightarrow>
          if \<not> allConditionsMet e then (Failure ''Not all conditions are met'', w)
          else if status e \<in> set [released, refunded]
          then (Failure ''Funds already released or refunded'', w)
          else
            (case transfers_create env of
               Inl err \<Rightarrow> (Failure err, w)
             | Inr transferId \<Rightarrow>
                 (let w1 = w\<lparr>stripe_transfers := stripe_transfers w @
                        [made_transfer transferId escrowId e]\<rparr>
                  in case payouts_create env of
                       Inl err \<Rightarrow> (Failure err, w1)
                     | Inr payoutId \<Rightarrow>
                         (let w2 = w1\<lparr>stripe_payouts := stripe_payouts w1 @
                                [\<lparr>payout_id = payoutId, payout_amount = sellerAmount e,
                                  payout_currency = currency e,
                                  stripeAccount = sellerStripeAccountId e,
                                  payout_transferId = transferId\<rparr>]\<rparr>;
                              hist = statusHistory e @
                                [history_entry released now ''system''
                                   ''All conditions met - funds released to seller''];
                              w3 = updateDocument escrowId
                                (\<lambda>d. d\<lparr>status := released, statusHistory := hist,
                                        stripeTransferId := Some transferId,
                                        stripePayoutId := Some payoutId\<rparr>) w2;
                              w4 = logEscrowEvent escrowId ''released'' ''system'' w3
                          in (Success, w4)))))"

subsection \<open>Evaluating all conditions of a transaction\<close>

text \<open>The value \<open>evaluateSettlementConditions\<close> returns; \<open>result_released\<close> is \<open>None\<close>
  where the \<open>catch\<close> leaves \<open>released\<close> out.\<close>

record evaluation =
  result_allConditionsMet :: bool
  result_unmetConditions :: "string list"
  result_released :: "bool option"

text \<open>
  \<open>evaluateSettlementConditions\<close>: every condition is evaluated against the document as
  read; \<open>allMet\<close> is \<open>every((c) => c.isMet)\<close>; the evaluated list and the flag are written
  back; a release is attempted when \<open>allMet\<close> holds and the status read is none of
  \<open>released\<close>, \<open>refunded\<close>, \<open>disputed\<close>.
\<close>

definition evaluateSettlementConditions ::
  "stripe_env \<Rightarrow> time_value \<Rightarrow> string \<Rightarrow> world \<Rightarrow> evaluation \<times> world" where
  "evaluateSettlementConditions env now escrowId w =
     (case escrow_transactions w escrowId of
        None \<Rightarrow>
          (\<lparr>result_allConditionsMet = False, result_unmetConditions = [],
            result_released = None\<rparr>, w)
      | Some e \<Rightarrow>
          (let conditions = settlementConditions e;
               evaluatedConditions = map (\<lambda>condition. evaluateCondition condition e now) conditions;
               allMet = list_all isMet evaluatedConditions;
               unmet = map description (filter (\<lambda>c. \<not> isMet c) evaluatedConditions);
               w1 = updateDocument escrowId
                      (\<lambda>d. d\<lparr>settlementConditions := evaluatedConditions,
                              allConditionsMet := allMet\<rparr>) w
           in if allMet \<and> status e \<notin> set [released, refunded, disputed]
              then (let (result, w2) = releaseFundsToSeller env now escrowId w1
                    in (\<lparr>result_allConditionsMet = allMet, result_unmetConditions = unmet,
                          result_released = Some (result = Success)\<rparr>, w2))
              else (\<lparr>result_allConditionsMet = allMet, result_unmetConditions = unmet,
                      result_released = Some False\<rparr>, w1)))"

subsection \<open>Seller and buyer actions\<close>

record tracking_data =
  td_carrier :: string
  td_trackingNumber :: string
  td_trackingUrl :: "string option"
  td_estimatedDelivery :: "string option"

text \<open>
  \<open>markAsShipped\<close>: the seller check, then the status check, each returning before any
  write; then the status update, the tracking condition's config, the audit event and a
  re-evaluation of the conditions.
\<close>

definition markAsShipped ::
  "stripe_env \<Rightarrow> time_value \<Rightarrow> string \<Rightarrow> string \<Rightarrow> tracking_data \<Rightarrow> world
     \<Rightarrow> op_result \<times> world" where
  "markAsShipped env now escrowId seller trackingData w =
     (case escrow_transactions w escrowId of
        None \<Rightarrow> (Failure document_not_found, w)
      | Some e \<Rightarrow>
          if sellerId e \<noteq> seller then (Failure ''Unauthorized'', w)
          else if status e \<noteq> payment_received
          then (Failure ''Invalid status for shipping'', w)
          else
            (let hist = statusHistory e @
                   [history_entry shipped now ''seller''
                      (''Shipped via '' @ td_carrier trackingData)];
                 w1 = updateDocument escrowId
                        (\<lambda>d. d\<lparr>status := shipped, statusHistory := hist,
                                shippingDetails := Some
                                  \<lparr>carrier = td_carrier trackingData,
                                   shipping_trackingNumber = td_trackingNumber trackingData,
                                   trackingUrl = td_trackingUrl trackingData,
                                   estimatedDelivery = td_estimatedDelivery trackingData,
                                   shippedAt = Some (Timestamp now),
                                   actualDelivery = None\<rparr>\<rparr>) w;
                 w2 = updateCondition escrowId tracking_confirmation
                        (no_updates\<lparr>trackingNumber := Some (td_trackingNumber trackingData),
                                     carrierName := Some (td_carrier trackingData)\<rparr>) w1;
                 w3 = logEscrowEvent escrowId ''shipped'' ''seller'' w2;
                 (ev, w4) = evaluateSettlementConditions env now escrowId w3
             in (Success, w4)))"

text \<open>\<open>confirmReceipt\<close>; the rating and the feedback go into the event payload only.\<close>

definition confirmReceipt ::
  "stripe_env \<Rightarrow> time_value \<Rightarrow> string \<Rightarrow> string \<Rightarrow> world \<Rightarrow> op_result \<times> world" where
  "confirmReceipt env now escrowId buyer w =
     (case escrow_transactions w escrowId of
        None \<Rightarrow> (Failure document_not_found, w)
      | Some e \<Rightarrow>
          if buyerId e \<noteq> buyer then (Failure ''Unauthorized'', w)
          else if status e \<notin> set [shipped, in_transit, delivered]
          then (Failure ''Item must be delivered before confirming'', w)
          else
            (let hist = statusHistory e @
                   [history_entry confirmed now ''buyer'' ''Buyer confirmed receipt''];
                 w1 = updateDocument escrowId
                        (\<lambda>d. d\<lparr>status := confirmed, statusHistory := hist\<rparr>) w;
                 w2 = updateCondition escrowId buyer_confirmation
                        (no_updates\<lparr>confirmationRequired := Some True\<rparr>) w1;
                 w3 = logEscrowEvent escrowId ''confirmed'' ''buyer'' w2;
                 (ev, w4) = evaluateSettlementConditions env now escrowId w3
             in (Success, w4)))"

text \<open>
  \<open>openDispute\<close>; the evidence goes into the event payload only. The deadline is looked
  at only when the document has one, and the dispute is refused when \<open>now > deadline\<close>.
\<close>

definition openDispute ::
  "time_value \<Rightarrow> string \<Rightarrow> string \<Rightarrow> string \<Rightarrow> world \<Rightarrow> op_result \<times> world" where
  "openDispute now escrowId buyer reason w =
     (case escrow_transactions w escrowId of
        None \<Rightarrow> (Failure document_not_found, w)
      | Some e \<Rightarrow>
          if buyerId e \<noteq> buyer then (Failure ''Unauthorized'', w)
          else if status e \<notin> set [shipped, in_transit, delivered, confirmed]
          then (Failure ''Cannot dispute at this stage'', w)
          else if (case disputePeriodEndsAt e of
                     Some deadline \<Rightarrow> date_gt now deadline
                   | None \<Rightarrow> False)
          then (Failure ''Dispute period has expired'', w)
          else
            (let hist = statusHistory e @ [history_entry disputed now ''buyer'' reason];
                 w1 = updateDocument escrowId
                        (\<lambda>d. d\<lparr>status := disputed, statusHistory := hist,
                                disputeReason := Some reason,
                                disputedAt := Some (Timestamp now)\<rparr>) w;
                 w2 = logEscrowEvent escrowId ''disputed'' ''buyer'' w1
             in (Success, w2)))"

subsection \<open>Capture and refund\<close>

text \<open>\<open>captureEscrowPayment\<close>: confirm the payment intent, capture it, record the charge.
  The payment method id goes to the payment rail only.\<close>

definition captureEscrowPayment ::
  "stripe_env \<Rightarrow> time_value \<Rightarrow> string \<Rightarrow> world \<Rightarrow> op_result \<times> world" where
  "captureEscrowPayment env now escrowId w =
     (case escrow_transactions w escrowId of
        None \<Rightarrow> (Failure document_not_found, w)
      | Some e \<Rightarrow>
          if status e \<noteq> pending_payment then (Failure ''Invalid escrow status'', w)
          else
            (case paymentIntents_confirm env of
               Inl err \<Rightarrow> (Failure err, w)
             | Inr intentId \<Rightarrow>
                 (case paymentIntents_capture env of
                    Inl err \<Rightarrow> (Failure err, w)
                  | Inr latest_charge \<Rightarrow>
                      (let hist = statusHistory e @
                             [history_entry payment_received now ''buyer''
                                ''Payment captured successfully''];
                           w1 = updateDocument escrowId
                                  (\<lambda>d. d\<lparr>status := payment_received, statusHistory := hist,
                                          stripeChargeId := Some latest_charge\<rparr>) w;
                           w2 = logEscrowEvent escrowId ''payment_received'' ''system'' w1
                       in (Success, w2)))))"

text \<open>\<open>refundToBuyer\<close>; \<open>refundAmount || escrow.amount\<close> takes the full amount when no
  amount or the amount 0 is given.\<close>

definition refundToBuyer ::
  "stripe_env \<Rightarrow> time_value \<Rightarrow> string \<Rightarrow> rat option \<Rightarrow> string option \<Rightarrow> world
     \<Rightarrow> op_result \<times> world" where
  "refundToBuyer env now escrowId refundAmount reason w =
     (case escrow_transactions w escrowId of
        None \<Rightarrow> (Failure document_not_found, w)
      | Some e \<Rightarrow>
          if status e \<in> set [refunded, released]
          then (Failure ''Transaction already completed'', w)
          else
            (let amountToRefund =
                   (case refundAmount of
                      None \<Rightarrow> amount e
                    | Some a \<Rightarrow> if a = 0 then amount e else a)
             in case refunds_create env of
                  Inl err \<Rightarrow> (Failure err, w)
                | Inr refundId \<Rightarrow>
                    (let w1 = w\<lparr>stripe_refunds := stripe_refunds w @
                           [\<lparr>refund_id = refundId,
                             payment_intent = stripePaymentIntentId e,
                             refund_amount = amountToRefund\<rparr>]\<rparr>;
                         hist = statusHistory e @
                           [history_entry refunded now ''platform''
                              (if truthy_string reason then the reason else ''Refund issued'')];
                         w2 = updateDocument escrowId
                                (\<lambda>d. d\<lparr>status := refunded, statusHistory := hist\<rparr>) w1;
                         w3 = logEscrowEvent escrowId ''refunded'' ''platform'' w2
                     in (Success, w3))))"

subsection \<open>JavaScript numbers\<close>

text \<open>
  A finite IEEE 754 double is modelled by the rational number it denotes. An arithmetic
  operator of the source is the exact operation followed by \<open>binary64\<close>, the rounding to
  the nearest double with ties to the even significand: 53 significant bits, with the
  spacing of the subnormal range below \<open>2 powi (- 1022)\<close>. Infinities, NaN and the sign
  of zero are outside the model, so \<open>binary64\<close> is the rounding of the standard for results
  below \<open>2 ^ 1024\<close> in magnitude. \<open>Math.round\<close> is exact: the nearest integer, a tie
  going up.
\<close>

definition round_half_even :: "rat \<Rightarrow> int" where
  "round_half_even q =
     (let f = \<lfloor>q\<rfloor>; d = q - of_int f
      in if d < 1 / 2 then f
         else if 1 / 2 < d then f + 1
         else if even f then f else f + 1)"

text \<open>The binary exponent \<open>k\<close> of a non-zero number \<open>x\<close>, the one with
  \<open>2 powi k \<le> \<bar>x\<bar>\<close> and \<open>\<bar>x\<bar> < 2 powi (k + 1)\<close>: the difference of the bit lengths
  of numerator and denominator, or one less.\<close>

definition exponent :: "rat \<Rightarrow> int" where
  "exponent x =
     (let (a, b) = quotient_of \<bar>x\<bar>; d = bitlen a - bitlen b
      in if 2 powi d \<le> \<bar>x\<bar> then d else d - 1)"

definition binary64 :: "rat \<Rightarrow> rat" where
  "binary64 x =
     (if x = 0 then 0
      else (let ulp = 2 powi (max (exponent x - 52) (- 1074))
            in of_int (round_half_even (x / ulp)) * ulp))"

definition js_add :: "rat \<Rightarrow> rat \<Rightarrow> rat" where
  "js_add x y = binary64 (x + y)"

definition js_sub :: "rat \<Rightarrow> rat \<Rightarrow> rat" where
  "js_sub x y = binary64 (x - y)"

definition js_mul :: "rat \<Rightarrow> rat \<Rightarrow> rat" where
  "js_mul x y = binary64 (x * y)"

text \<open>Division by a non-zero divisor (the source divides by the literal 100 only).\<close>

definition js_div :: "rat \<Rightarrow> rat \<Rightarrow> rat" where
  "js_div x y = binary64 (x / y)"

definition Math_round :: "rat \<Rightarrow> rat" where
  "Math_round x = of_int \<lfloor>x + 1 / 2\<rfloor>"

subsection \<open>Creating a transaction\<close>

text \<open>\<open>getPlatformConfig\<close>: the stored configuration, or the defaults written in the
  source. A decimal literal is the double nearest to it.\<close>

definition default_config :: platform_config where
  "default_config =
     \<lparr>platformFeePercentage = binary64 (5 / 2), platformFeeFixed = 30,
      stripeFeePercentage = binary64 (29 / 10), stripeFeeFixed = 30,
      defaultDisputePeriodDays = 7, defaultAutoReleaseDays = 14,
      defaultInspectionDays = 3\<rparr>"

definition getPlatformConfig :: "world \<Rightarrow> platform_config" where
  "getPlatformConfig w =
     (case escrow_platform_config w of Some c \<Rightarrow> c | None \<Rightarrow> default_config)"

text \<open>The three locals of \<open>createEscrowTransaction\<close> under the comment
  \<open>Calculate fees\<close>, with the source's operators in the source's order:
  \<open>amount * (percentage / 100) + fixed\<close>.\<close>

definition calc_platformFee :: "platform_config \<Rightarrow> rat \<Rightarrow> rat" where
  "calc_platformFee cfg amt =
     Math_round (js_add (js_mul amt (js_div (platformFeePercentage cfg) 100))
                        (platformFeeFixed cfg))"

definition calc_stripeFee :: "platform_config \<Rightarrow> rat \<Rightarrow> rat" where
  "calc_stripeFee cfg amt =
     Math_round (js_add (js_mul amt (js_div (stripeFeePercentage cfg) 100))
                        (stripeFeeFixed cfg))"

definition calc_sellerAmount :: "platform_config \<Rightarrow> rat \<Rightarrow> rat" where
  "calc_sellerAmount cfg amt =
     js_sub (js_sub amt (calc_platformFee cfg amt)) (calc_stripeFee cfg amt)"

text \<open>\<open>new Date(t).toISOString()\<close> throws a RangeError outside the range of time values;
  \<open>None\<close> is the throw.\<close>

definition toISOString :: "int \<Rightarrow> date_string option" where
  "toISOString t = (if \<bar>t\<bar> \<le> 8640000000000000 then Some (Timestamp t) else None)"

text \<open>A whole number in a template literal.\<close>

fun show_nat :: "nat \<Rightarrow> string" where
  "show_nat n =
     (if n < 10 then [char_of (48 + n)]
      else show_nat (n div 10) @ [char_of (48 + n mod 10)])"

definition show_int :: "int \<Rightarrow> string" where
  "show_int i = (if i < 0 then CHR ''-'' # show_nat (nat (- i)) else show_nat (nat i))"

definition fresh_config :: condition_config where
  "fresh_config = no_updates"

text \<open>\<open>getDefaultConditionsForItemType\<close>: the conditions of each item type, none of them
  with a \<open>required\<close> key, all of them not met. The release instant is fixed here, from the
  clock at creation.\<close>

definition getDefaultConditionsForItemType ::
  "item_type \<Rightarrow> platform_config \<Rightarrow> time_value \<Rightarrow> settlement_condition list option" where
  "getDefaultConditionsForItemType ty cfg now =
     (case ty of
        physical_goods \<Rightarrow>
          (case toISOString (now + defaultAutoReleaseDays cfg * 24 * 60 * 60 * 1000) of
             None \<Rightarrow> None
           | Some releaseAt \<Rightarrow> Some
              [\<lparr>cond_type = tracking_confirmation,
                description = ''Seller must provide tracking and item must be delivered'',
                priority = 1, required = None,
                config = fresh_config\<lparr>requireTracking := Some True\<rparr>,
                isMet = False, metAt = None\<rparr>,
               \<lparr>cond_type = buyer_confirmation,
                description = ''Buyer must confirm receipt OR'',
                priority = 2, required = None,
                config = fresh_config\<lparr>confirmationRequired := Some True\<rparr>,
                isMet = False, metAt = None\<rparr>,
               \<lparr>cond_type = time_based,
                description = ''Auto-release after '' @ show_int (defaultAutoReleaseDays cfg)
                                @ '' days if no dispute'',
                priority = 3, required = None,
                config = fresh_config\<lparr>autoReleaseDays := Some (defaultAutoReleaseDays cfg),
                                        autoReleaseAt := Some releaseAt\<rparr>,
                isMet = False, metAt = None\<rparr>])
      | digital_goods \<Rightarrow>
          (case toISOString (now + 2 * 24 * 60 * 60 * 1000) of
             None \<Rightarrow> None
           | Some releaseAt \<Rightarrow> Some
              [\<lparr>cond_type = buyer_confirmation,
                description = ''Buyer must confirm receipt OR'',
                priority = 1, required = None,
                config = fresh_config\<lparr>confirmationRequired := Some True\<rparr>,
                isMet = False, metAt = None\<rparr>,
               \<lparr>cond_type = time_based,
                description = ''Auto-release after 48 hours if no dispute'',
                priority = 2, required = None,
                config = fresh_config\<lparr>autoReleaseDays := Some 2, autoReleaseAt := Some releaseAt\<rparr>,
                isMet = False, metAt = None\<rparr>])
      | service \<Rightarrow> Some
          [\<lparr>cond_type = milestone_based,
            description = ''All service milestones must be completed'',
            priority = 1, required = None,
            config = fresh_config\<lparr>milestones := Some
              [\<lparr>milestone_id = ''1'', milestone_description = ''Service completed'',
                percentage = 100, completed = False\<rparr>]\<rparr>,
            isMet = False, metAt = None\<rparr>,
           \<lparr>cond_type = buyer_confirmation,
            description = ''Buyer must confirm completion'',
            priority = 2, required = None,
            config = fresh_config\<lparr>confirmationRequired := Some True\<rparr>,
            isMet = False, metAt = None\<rparr>]
      | subscription \<Rightarrow>
          (case toISOString (now + defaultAutoReleaseDays cfg * 24 * 60 * 60 * 1000) of
             None \<Rightarrow> None
           | Some releaseAt \<Rightarrow> Some
              [\<lparr>cond_type = time_based,
                description = ''Auto-release after '' @ show_int (defaultAutoReleaseDays cfg)
                                @ '' days'',
                priority = 1, required = None,
                config = fresh_config\<lparr>autoReleaseDays := Some (defaultAutoReleaseDays cfg),
                                        autoReleaseAt := Some releaseAt\<rparr>,
                isMet = False, metAt = None\<rparr>]))"

text \<open>A caller's condition: a \<open>SettlementCondition\<close> without \<open>isMet\<close> and \<open>metAt\<close>.\<close>

record custom_condition =
  custom_type :: condition_type
  custom_description :: string
  custom_priority :: "int option"
  custom_required :: "bool option"
  custom_config :: condition_config

record create_data =
  data_sellerId :: string
  data_itemDescription :: string
  data_itemType :: item_type
  data_amount :: rat
  data_currency :: string
  customConditions :: "custom_condition list option"

text \<open>\<open>{ ...c, isMet: false, priority: c.priority || index + 1 }\<close>.\<close>

definition from_custom :: "nat \<times> custom_condition \<Rightarrow> settlement_condition" where
  "from_custom ic =
     (case ic of (index, c) \<Rightarrow>
        \<lparr>cond_type = custom_type c, description = custom_description c,
         priority = (case custom_priority c of
                       None \<Rightarrow> int index + 1
                     | Some p \<Rightarrow> if p = 0 then int index + 1 else p),
         required = custom_required c, config = custom_config c,
         isMet = False, metAt = None\<rparr>)"

text \<open>
  \<open>createEscrowTransaction\<close>; every throw inside its \<open>try\<close> ends in \<open>return null\<close>. The
  payment intent is created before the document, so it stays created when
  \<open>createDocument\<close> refuses an id that is taken. The rule template id is never read and
  the metadata is stored and never read; both are left out.
\<close>

definition createEscrowTransaction ::
  "stripe_env \<Rightarrow> time_value \<Rightarrow> string \<Rightarrow> create_data \<Rightarrow> world \<Rightarrow> escrow option \<times> world" where
  "createEscrowTransaction env now buyer dat w =
     (case stripe_accounts w (data_sellerId dat) of
        None \<Rightarrow> (None, w)
      | Some sellerAccount \<Rightarrow>
          if \<not> chargesEnabled sellerAccount then (None, w)
          else
            (let cfg = getPlatformConfig w;
                 fee = calc_platformFee cfg (data_amount dat);
                 net = calc_sellerAmount cfg (data_amount dat)
             in case (case customConditions dat of
                        Some cs \<Rightarrow> Some (map from_custom (enumerate 0 cs))
                      | None \<Rightarrow> getDefaultConditionsForItemType (data_itemType dat) cfg now) of
                  None \<Rightarrow> (None, w)
                | Some conditions \<Rightarrow>
                    (case paymentIntents_create env of
                       Inl err \<Rightarrow> (None, w)
                     | Inr intentId \<Rightarrow>
                         (let w1 = w\<lparr>stripe_payment_intents := stripe_payment_intents w @
                                [\<lparr>intent_id = intentId, intent_amount = data_amount dat,
                                  intent_currency = data_currency dat\<rparr>]\<rparr>
                          in if escrow_transactions w1 (ID_unique env) \<noteq> None then (None, w1)
                             else
                               (let doc =
                                      \<lparr>buyerId = buyer, sellerId = data_sellerId dat,
                                       sellerStripeAccountId = stripeAccountId sellerAccount,
                                       itemDescription = data_itemDescription dat,
                                       itemType = data_itemType dat,
                                       amount = data_amount dat,
                                       platformFee = fee, sellerAmount = net,
                                       currency = data_currency dat,
                                       stripePaymentIntentId = intentId,
                                       stripeChargeId = None, stripeTransferId = None,
                                       stripePayoutId = None,
                                       status = pending_payment,
                                       statusHistory =
                                         [history_entry pending_payment now ''buyer''
                                            ''Escrow transaction created''],
                                       settlementConditions = conditions,
                                       allConditionsMet = False,
                                       shippingDetails = None, disputeReason = None,
                                       disputedAt = None,
                                       disputePeriodDays = defaultDisputePeriodDays cfg,
                                       disputePeriodEndsAt = None\<rparr>;
                                    w2 = w1\<lparr>escrow_transactions :=
                                           (escrow_transactions w1)(ID_unique env \<mapsto> doc)\<rparr>;
                                    w3 = logEscrowEvent (ID_unique env) ''payment_received''
                                           ''buyer'' w2
                                in (Some doc, w3))))))"

subsection \<open>Sequences of calls\<close>

text \<open>One condition evaluated again and again, each time against the document and the
  clock of that evaluation.\<close>

definition evaluate_repeatedly ::
  "settlement_condition \<Rightarrow> (escrow \<times> time_value) list \<Rightarrow> settlement_condition" where
  "evaluate_repeatedly c earlier =
     foldl (\<lambda>c' (e, now). evaluateCondition c' e now) c earlier"

text \<open>\<open>releaseFundsToSeller\<close> called for the same transaction one call after the other,
  each call with its own answers of the payment rail and its own clock.\<close>

fun release_calls ::
  "(stripe_env \<times> time_value) list \<Rightarrow> string \<Rightarrow> world \<Rightarrow> op_result list \<times> world" where
  "release_calls [] escrowId w = ([], w)"
| "release_calls ((env, now) # calls) escrowId w =
     (let (r, w1) = releaseFundsToSeller env now escrowId w;
          (rs, w2) = release_calls calls escrowId w1
      in (r # rs, w2))"

text \<open>The same for \<open>evaluateSettlementConditions\<close>.\<close>

fun evaluate_calls ::
  "(stripe_env \<times> time_value) list \<Rightarrow> string \<Rightarrow> world \<Rightarrow> evaluation list \<times> world" where
  "evaluate_calls [] escrowId w = ([], w)"
| "evaluate_calls ((env, now) # calls) escrowId w =
     (let (r, w1) = evaluateSettlementConditions env now escrowId w;
          (rs, w2) = evaluate_calls calls escrowId w1
      in (r # rs, w2))"

subsection \<open>The aggregation rule as documented\<close>

text \<open>
  The rule in the words of the specification and of the repository's settlement
  examples (\<open>required: true // AND logic\<close>, \<open>required: false // OR logic\<close>, only one
  needs to be met): every condition marked \<open>required\<close> is met, and of the conditions
  without \<open>required\<close>, if there are any, at least one is met. It is stated here to be
  compared with what \<open>evaluateSettlementConditions\<close> computes.
\<close>

definition marked_required :: "settlement_condition \<Rightarrow> bool" where
  "marked_required c = (required c = Some True)"

definition spec_settleable :: "settlement_condition list \<Rightarrow> bool" where
  "spec_settleable cs =
     (list_all isMet (filter marked_required cs)
      \<and> (let group = filter (\<lambda>c. \<not> marked_required c) cs
         in group = [] \<or> list_ex isMet group))"

subsection \<open>Example data\<close>

text \<open>A payment rail on which every call succeeds, and one on which the payout fails.\<close>

definition example_env :: stripe_env where
  "example_env =
     \<lparr>ID_unique = ''escrow1'', paymentIntents_create = Inr ''pi_1'',
      paymentIntents_confirm = Inr ''pi_1'', paymentIntents_capture = Inr ''ch_1'',
      transfers_create = Inr ''tr_1'', payouts_create = Inr ''po_1'',
      refunds_create = Inr ''re_1''\<rparr>"

definition payout_fails_env :: stripe_env where
  "payout_fails_env = example_env\<lparr>payouts_create := Inl ''payout failed''\<rparr>"

definition retry_env :: stripe_env where
  "retry_env = example_env\<lparr>transfers_create := Inr ''tr_2'', payouts_create := Inr ''po_2''\<rparr>"

text \<open>A store with one verified seller and no stored configuration.\<close>

definition initial_world :: world where
  "initial_world =
     \<lparr>escrow_transactions = Map.empty, escrow_events = [],
      stripe_accounts =
        [''seller1'' \<mapsto> \<lparr>stripeAccountId = ''acct_1'', chargesEnabled = True\<rparr>],
      escrow_platform_config = None, stripe_payment_intents = [],
      stripe_transfers = [], stripe_payouts = [], stripe_refunds = []\<rparr>"

definition example_data :: "item_type \<Rightarrow> create_data" where
  "example_data ty =
     \<lparr>data_sellerId = ''seller1'', data_itemDescription = ''Vintage camera'',
      data_itemType = ty, data_amount = 45000, data_currency = ''nzd'',
      customConditions = None\<rparr>"

definition example_tracking :: tracking_data where
  "example_tracking =
     \<lparr>td_carrier = ''NZ Post'', td_trackingNumber = ''NZP123456789'',
      td_trackingUrl = None, td_estimatedDelivery = None\<rparr>"

text \<open>The life of a transaction \<open>escrow1\<close> of the given item type, through the operations
  themselves: created at time 0, paid, shipped, and confirmed by the buyer at time 3000.\<close>

definition world_shipped :: "item_type \<Rightarrow> world" where
  "world_shipped ty =
     (let w1 = snd (createEscrowTransaction example_env 0 ''buyer1'' (example_data ty)
                      initial_world);
          w2 = snd (captureEscrowPayment example_env 1000 ''escrow1'' w1)
      in snd (markAsShipped example_env 2000 ''escrow1'' ''seller1'' example_tracking w2))"

definition world_confirmed :: "item_type \<Rightarrow> world" where
  "world_confirmed ty =
     snd (confirmReceipt example_env 3000 ''escrow1'' ''buyer1'' (world_shipped ty))"

text \<open>Three days after creation the timer of digital goods (48 hours) has run out.\<close>

definition three_days :: time_value where
  "three_days = 3 * 24 * 60 * 60 * 1000"

definition world_released :: world where
  "world_released =
     snd (evaluateSettlementConditions example_env three_days ''escrow1''
            (world_confirmed digital_goods))"

definition world_disputed :: world where
  "world_disputed =
     snd (openDispute 4000 ''escrow1'' ''buyer1'' ''Licence key rejected''
            (world_confirmed digital_goods))"

text \<open>A document and a store holding it, for inputs chosen field by field.\<close>

definition example_escrow :: escrow where
  "example_escrow =
     \<lparr>buyerId = ''buyer1'', sellerId = ''seller1'', sellerStripeAccountId = ''acct_1'',
      itemDescription = ''Vintage camera'', itemType = physical_goods,
      amount = 45000, platformFee = 1155, sellerAmount = 42510, currency = ''nzd'',
      stripePaymentIntentId = ''pi_1'', stripeChargeId = Some ''ch_1'',
      stripeTransferId = None, stripePayoutId = None,
      status = shipped, statusHistory = [], settlementConditions = [],
      allConditionsMet = True, shippingDetails = None, disputeReason = None,
      disputedAt = None, disputePeriodDays = 7,
      disputePeriodEndsAt = Some (Timestamp 10000)\<rparr>"

definition world_with :: "escrow \<Rightarrow> world" where
  "world_with e = initial_world\<lparr>escrow_transactions := [''escrow1'' \<mapsto> e]\<rparr>"

definition example_condition :: "condition_type \<Rightarrow> settlement_condition" where
  "example_condition ty =
     \<lparr>cond_type = ty, description = ''example'', priority = 1, required = None,
      config = fresh_config, isMet = False, metAt = None\<rparr>"

text \<open>A timer with the release instant 5000; a timer that has lost its release instant
  while stored as met; a buyer confirmation stored as met at time 3000.\<close>

definition timer_condition :: settlement_condition where
  "timer_condition =
     (example_condition time_based)
       \<lparr>config := fresh_config\<lparr>autoReleaseAt := Some (Timestamp 5000)\<rparr>\<rparr>"

definition stale_condition :: settlement_condition where
  "stale_condition = (example_condition time_based)\<lparr>isMet := True\<rparr>"

definition met_condition :: settlement_condition where
  "met_condition =
     (example_condition buyer_confirmation)\<lparr>isMet := True, metAt := Some (Timestamp 3000)\<rparr>"

definition released_example :: escrow where
  "released_example =
     example_escrow\<lparr>status := released, settlementConditions := [met_condition]\<rparr>"

text \<open>The digital-goods transaction after an evaluation on the third day during which
  the transfer went through and the payout failed.\<close>

definition world_payout_failed :: world where
  "world_payout_failed =
     snd (evaluateSettlementConditions payout_fails_env three_days ''escrow1''
            (world_confirmed digital_goods))"

definition fifteen_days :: time_value where
  "fifteen_days = 15 * 24 * 60 * 60 * 1000"

section \<open>Properties\<close>

declare show_nat.simps [simp del]

subsection \<open>One condition\<close>

lemma evaluateCondition_config [simp]: "config (evaluateCondition c e now) = config c"
  by (simp add: evaluateCondition_def Let_def)

lemma evaluateCondition_cond_type [simp]:
  "cond_type (evaluateCondition c e now) = cond_type c"
  by (simp add: evaluateCondition_def Let_def)

lemma evaluateCondition_isMet [simp]:
  "isMet (evaluateCondition c e now) = switch_isMet c e now"
  by (simp add: evaluateCondition_def Let_def)

lemma evaluateCondition_metAt:
  "metAt (evaluateCondition c e now) =
     (if switch_isMet c e now \<and> metAt c = None then Some (Timestamp now) else metAt c)"
  by (simp add: evaluateCondition_def Let_def)

lemma evaluate_repeatedly_keeps:
  "config (evaluate_repeatedly c earlier) = config c \<and>
   cond_type (evaluate_repeatedly c earlier) = cond_type c"
  unfolding evaluate_repeatedly_def
  by (induction earlier arbitrary: c) auto

text \<open>The release instant of a timer is fixed when the conditions are made: the clock at
  creation plus the configured number of days (two days for digital goods).\<close>

lemma release_instant_fixed_at_creation:
  assumes "getDefaultConditionsForItemType ty cfg created = Some cs"
  shows "map (\<lambda>c. autoReleaseAt (config c)) (filter (\<lambda>c. cond_type c = time_based) cs)
         = (case ty of
              service \<Rightarrow> []
            | digital_goods \<Rightarrow> [Some (Timestamp (created + 2 * 24 * 60 * 60 * 1000))]
            | _ \<Rightarrow> [Some (Timestamp
                       (created + defaultAutoReleaseDays cfg * 24 * 60 * 60 * 1000))])"
  using assms
  by (cases ty)
    (auto simp add: getDefaultConditionsForItemType_def toISOString_def fresh_config_def
      split: option.splits if_splits)

text \<open>
  Claim C7. A \<open>time_based\<close> condition with a stored release instant is met by an
  evaluation at \<open>now\<close> exactly when \<open>now\<close> is at or after that instant, whatever
  evaluations came before; the evaluations leave the stored instant as it is; and the
  instant stored at creation is computed from the clock at creation.
\<close>

theorem time_based_met_iff_deadline_reached:
  assumes "cond_type c = time_based"
    and "autoReleaseAt (config c) = Some (Timestamp deadline)"
  shows "isMet (evaluateCondition (evaluate_repeatedly c earlier) e now) = (deadline \<le> now)
       \<and> autoReleaseAt (config (evaluateCondition (evaluate_repeatedly c earlier) e now))
           = Some (Timestamp deadline)
       \<and> (getDefaultConditionsForItemType ty cfg created = Some cs \<longrightarrow>
            map (\<lambda>c. autoReleaseAt (config c)) (filter (\<lambda>c. cond_type c = time_based) cs)
            = (case ty of
                 service \<Rightarrow> []
               | digital_goods \<Rightarrow> [Some (Timestamp (created + 2 * 24 * 60 * 60 * 1000))]
               | _ \<Rightarrow> [Some (Timestamp
                          (created + defaultAutoReleaseDays cfg * 24 * 60 * 60 * 1000))]))"
  using assms release_instant_fixed_at_creation [of ty cfg created cs]
  by (simp add: evaluate_repeatedly_keeps switch_isMet_def)

theorem time_based_met_iff_deadline_reached_witness:
  "cond_type timer_condition = time_based
   \<and> autoReleaseAt (config timer_condition) = Some (Timestamp 5000)
   \<and> \<not> isMet (evaluateCondition
          (evaluate_repeatedly timer_condition [(example_escrow, 1000), (example_escrow, 6000)])
          example_escrow 4999)
   \<and> isMet (evaluateCondition
          (evaluate_repeatedly timer_condition [(example_escrow, 1000), (example_escrow, 6000)])
          example_escrow 5000)
   \<and> map (\<lambda>c. autoReleaseAt (config c))
       (filter (\<lambda>c. cond_type c = time_based)
          (the (getDefaultConditionsForItemType digital_goods default_config 1000)))
     = [Some (Timestamp 172801000)]"
proof -
  let ?made = "getDefaultConditionsForItemType digital_goods default_config 1000"
  have t: "cond_type timer_condition = time_based"
    by (simp add: timer_condition_def example_condition_def)
  have d: "autoReleaseAt (config timer_condition) = Some (Timestamp 5000)"
    by (simp add: timer_condition_def example_condition_def)
  have "?made \<noteq> None"
    by (simp add: getDefaultConditionsForItemType_def toISOString_def)
  then have m: "?made = Some (the ?made)" by simp
  show ?thesis
    using t d m
      time_based_met_iff_deadline_reached [OF t d,
        where earlier = "[(example_escrow, 1000), (example_escrow, 6000)]"
          and e = example_escrow and now = 4999 and ty = digital_goods
          and cfg = default_config and created = 1000 and cs = "the ?made"]
      time_based_met_iff_deadline_reached [OF t d,
        where earlier = "[(example_escrow, 1000), (example_escrow, 6000)]"
          and e = example_escrow and now = 5000 and ty = digital_goods
          and cfg = default_config and created = 1000 and cs = "the ?made"]
    by simp
qed

lemma created_conditions_not_met:
  assumes "createEscrowTransaction env now buyer dat w = (Some doc, w')"
  shows "list_all (\<lambda>c. \<not> isMet c) (settlementConditions doc)"
proof -
  have custom: "list_all (\<lambda>c. \<not> isMet c) (map from_custom ics)" for ics
    by (induction ics) (auto simp add: from_custom_def)
  have default: "list_all (\<lambda>c. \<not> isMet c) cs"
    if "getDefaultConditionsForItemType ty cfg now = Some cs" for ty cfg cs
    using that
    by (cases ty) (auto simp add: getDefaultConditionsForItemType_def split: option.splits)
  from assms show ?thesis
    by (auto simp add: createEscrowTransaction_def Let_def custom default
        split: option.splits if_splits sum.splits)
qed

lemma stored_after_evaluation:
  assumes "escrow_transactions w escrowId = Some e"
  shows "map_option settlementConditions
           (escrow_transactions (snd (evaluateSettlementConditions env now escrowId w)) escrowId)
         = Some (map (\<lambda>c. evaluateCondition c e now) (settlementConditions e))"
  using assms
  by (auto simp add: evaluateSettlementConditions_def releaseFundsToSeller_def
      updateDocument_def logEscrowEvent_def Let_def split: sum.splits)

lemma missing_field_stays_unmet:
  assumes "cond_type c = time_based \<and> autoReleaseAt (config c) = None
      \<or> cond_type c = milestone_based \<and> milestones (config c) = None
      \<or> cond_type c = inspection_period \<and> inspectionDeadline (config c) = None"
    and "\<not> isMet c"
  shows "\<not> isMet (evaluate_repeatedly c earlier)"
  using assms unfolding evaluate_repeatedly_def
proof (induction earlier arbitrary: c)
  case Nil
  then show ?case by simp
next
  case (Cons x earlier)
  obtain e now where x: "x = (e, now)" by (cases x)
  have "\<not> isMet (evaluateCondition c e now)"
    using Cons.prems by (auto simp add: switch_isMet_def)
  moreover have "cond_type (evaluateCondition c e now) = time_based
        \<and> autoReleaseAt (config (evaluateCondition c e now)) = None
      \<or> cond_type (evaluateCondition c e now) = milestone_based
        \<and> milestones (config (evaluateCondition c e now)) = None
      \<or> cond_type (evaluateCondition c e now) = inspection_period
        \<and> inspectionDeadline (config (evaluateCondition c e now)) = None"
    using Cons.prems(1) by simp
  ultimately show ?case using Cons.IH x by simp
qed


text \<open>
  Claim C9, as stated, fails: a \<open>time_based\<close> condition without \<open>autoReleaseAt\<close> that is
  stored as met comes out of the evaluation still met, because the \<open>switch\<close> does not
  assign \<open>isMet\<close> under a missing field.
\<close>

theorem missing_field_counterexample:
  "autoReleaseAt (config stale_condition) = None
   \<and> cond_type stale_condition = time_based
   \<and> isMet (evaluateCondition stale_condition example_escrow 0) = True"
  by (simp add: stale_condition_def example_condition_def fresh_config_def no_updates_def
      switch_isMet_def)

text \<open>
  Claim C9, amended. Evaluation never raises. Where the field a type decides by is missing
  (\<open>autoReleaseAt\<close>, the milestone list, \<open>inspectionDeadline\<close>, the shipping details),
  it leaves \<open>isMet\<close> at its stored value; every condition is stored not met when the
  transaction is created, so a condition that has lacked its field since then stays not
  met. A release instant or deadline that is no date, and an unrecognised type, give
  \<open>isMet = false\<close>. The other conditions are evaluated all the same: the list written
  back is the evaluation of every stored condition.
\<close>

theorem missing_field_keeps_stored_isMet:
  "(cond_type c = time_based \<and> autoReleaseAt (config c) = None
      \<or> cond_type c = milestone_based \<and> milestones (config c) = None
      \<or> cond_type c = inspection_period \<and> inspectionDeadline (config c) = None
      \<or> cond_type c = delivery_confirmation \<and> shippingDetails e = None
    \<longrightarrow> isMet (evaluateCondition c e now) = isMet c)
   \<and> (cond_type c = time_based \<and> autoReleaseAt (config c) = Some Unparsable
      \<or> cond_type c = inspection_period \<and> inspectionDeadline (config c) = Some Unparsable
      \<or> cond_type c = other_type t
    \<longrightarrow> \<not> isMet (evaluateCondition c e now))
   \<and> (createEscrowTransaction env now buyer dat w = (Some doc, w')
    \<longrightarrow> list_all (\<lambda>c. \<not> isMet c) (settlementConditions doc))
   \<and> ((cond_type c = time_based \<and> autoReleaseAt (config c) = None
       \<or> cond_type c = milestone_based \<and> milestones (config c) = None
       \<or> cond_type c = inspection_period \<and> inspectionDeadline (config c) = None)
      \<and> \<not> isMet c
    \<longrightarrow> \<not> isMet (evaluate_repeatedly c earlier))
   \<and> (escrow_transactions w escrowId = Some e \<longrightarrow>
        map_option settlementConditions
          (escrow_transactions (snd (evaluateSettlementConditions env now escrowId w)) escrowId)
        = Some (map (\<lambda>c. evaluateCondition c e now) (settlementConditions e)))"
proof -
  have a: "cond_type c = time_based \<and> autoReleaseAt (config c) = None
      \<or> cond_type c = milestone_based \<and> milestones (config c) = None
      \<or> cond_type c = inspection_period \<and> inspectionDeadline (config c) = None
      \<or> cond_type c = delivery_confirmation \<and> shippingDetails e = None
    \<longrightarrow> isMet (evaluateCondition c e now) = isMet c"
    by (auto simp add: switch_isMet_def)
  have b: "cond_type c = time_based \<and> autoReleaseAt (config c) = Some Unparsable
      \<or> cond_type c = inspection_period \<and> inspectionDeadline (config c) = Some Unparsable
      \<or> cond_type c = other_type t
    \<longrightarrow> \<not> isMet (evaluateCondition c e now)"
    by (auto simp add: switch_isMet_def)
  from a b created_conditions_not_met [of env now buyer dat w doc w']
    missing_field_stays_unmet [of c earlier]
    stored_after_evaluation [of w escrowId e env now]
  show ?thesis by blast
qed

theorem missing_field_keeps_stored_isMet_witness:
  "cond_type (example_condition time_based) = time_based
   \<and> autoReleaseAt (config (example_condition time_based)) = None
   \<and> \<not> isMet (example_condition time_based)
   \<and> \<not> isMet (evaluateCondition (example_condition time_based) example_escrow 7000)
   \<and> \<not> isMet (evaluate_repeatedly (example_condition time_based)
          [(example_escrow, 1000), (example_escrow, 6000)])
   \<and> \<not> isMet (evaluateCondition
          ((example_condition (other_type ''smart_contract''))\<lparr>isMet := True\<rparr>)
          example_escrow 7000)
   \<and> list_all (\<lambda>c. \<not> isMet c)
       (settlementConditions
          (the (fst (createEscrowTransaction example_env 0 ''buyer1''
                       (example_data physical_goods) initial_world))))
   \<and> map_option settlementConditions
       (escrow_transactions
          (snd (evaluateSettlementConditions example_env 7000 ''escrow1''
                  (world_with (example_escrow\<lparr>settlementConditions :=
                     [example_condition time_based, timer_condition]\<rparr>)))) ''escrow1'')
     = Some (map (\<lambda>c. evaluateCondition c
                  (example_escrow\<lparr>settlementConditions :=
                     [example_condition time_based, timer_condition]\<rparr>) 7000)
               [example_condition time_based, timer_condition])"
proof -
  let ?e = "example_escrow\<lparr>settlementConditions :=
              [example_condition time_based, timer_condition]\<rparr>"
  let ?created = "createEscrowTransaction example_env 0 ''buyer1''
                    (example_data physical_goods) initial_world"
  have t: "cond_type (example_condition time_based) = time_based"
    and n: "autoReleaseAt (config (example_condition time_based)) = None"
    and m: "\<not> isMet (example_condition time_based)"
    by (simp_all add: example_condition_def fresh_config_def no_updates_def)
  have o: "cond_type ((example_condition (other_type ''smart_contract''))\<lparr>isMet := True\<rparr>)
             = other_type ''smart_contract''"
    by (simp add: example_condition_def)
  have l: "escrow_transactions (world_with ?e) ''escrow1'' = Some ?e"
    by (simp add: world_with_def)
  have "fst ?created \<noteq> None" by code_simp
  then have cr: "?created = (Some (the (fst ?created)), snd ?created)"
    by (metis option.collapse prod.collapse)
  show ?thesis
    using t n m o l cr
      missing_field_keeps_stored_isMet
        [where c = "example_condition time_based" and e = example_escrow and now = 7000
           and earlier = "[(example_escrow, 1000), (example_escrow, 6000)]"]
      missing_field_keeps_stored_isMet
        [where c = "(example_condition (other_type ''smart_contract''))\<lparr>isMet := True\<rparr>"
           and e = example_escrow and now = 7000 and t = "''smart_contract''"]
      missing_field_keeps_stored_isMet
        [where env = example_env and now = 0 and buyer = "''buyer1''"
           and dat = "example_data physical_goods" and w = initial_world
           and doc = "the (fst ?created)" and w' = "snd ?created"]
      missing_field_keeps_stored_isMet
        [where e = ?e and w = "world_with ?e" and escrowId = "''escrow1''"
           and env = example_env and now = 7000]
    by simp
qed

text \<open>
  Claim C10. A \<open>buyer_confirmation\<close> condition is met by an evaluation exactly when the
  status read is \<open>confirmed\<close>, so one met under \<open>confirmed\<close> is evaluated as not met
  under any other status; and an evaluation leaves a \<open>metAt\<close> that is set as it is. Both
  happen to the transaction \<open>escrow1\<close> of the example: confirmed by the buyer at time
  3000, disputed at 4000, evaluated at 5000.
\<close>

theorem buyer_confirmation_flips_back:
  "(cond_type c = buyer_confirmation \<longrightarrow>
      isMet (evaluateCondition c e now) = (status e = confirmed))
   \<and> (metAt c = Some t \<longrightarrow> metAt (evaluateCondition c e now) = Some t)
   \<and> map_option (\<lambda>d. map (\<lambda>c. (cond_type c, isMet c, metAt c)) (settlementConditions d))
        (escrow_transactions (world_confirmed digital_goods) ''escrow1'')
      = Some [(buyer_confirmation, True, Some (Timestamp 3000)),
              (time_based, False, None)]
   \<and> map_option (\<lambda>d. map (\<lambda>c. (cond_type c, isMet c, metAt c)) (settlementConditions d))
        (escrow_transactions
           (snd (evaluateSettlementConditions example_env 5000 ''escrow1'' world_disputed))
           ''escrow1'')
      = Some [(buyer_confirmation, False, Some (Timestamp 3000)),
              (time_based, False, None)]"
proof -
  have a: "cond_type c = buyer_confirmation \<longrightarrow>
      isMet (evaluateCondition c e now) = (status e = confirmed)"
    by (simp add: switch_isMet_def)
  have b: "metAt c = Some t \<longrightarrow> metAt (evaluateCondition c e now) = Some t"
    by (simp add: evaluateCondition_metAt)
  have c: "map_option (\<lambda>d. map (\<lambda>c. (cond_type c, isMet c, metAt c)) (settlementConditions d))
        (escrow_transactions (world_confirmed digital_goods) ''escrow1'')
      = Some [(buyer_confirmation, True, Some (Timestamp 3000)),
              (time_based, False, None)]"
    by code_simp
  have d: "map_option (\<lambda>d. map (\<lambda>c. (cond_type c, isMet c, metAt c)) (settlementConditions d))
        (escrow_transactions
           (snd (evaluateSettlementConditions example_env 5000 ''escrow1'' world_disputed))
           ''escrow1'')
      = Some [(buyer_confirmation, False, Some (Timestamp 3000)),
              (time_based, False, None)]"
    by code_simp
  from a b c d show ?thesis by blast
qed

theorem buyer_confirmation_flips_back_witness:
  "cond_type met_condition = buyer_confirmation
   \<and> isMet met_condition
   \<and> metAt met_condition = Some (Timestamp 3000)
   \<and> \<not> isMet (evaluateCondition met_condition (example_escrow\<lparr>status := disputed\<rparr>) 9000)
   \<and> metAt (evaluateCondition met_condition (example_escrow\<lparr>status := disputed\<rparr>) 9000)
       = Some (Timestamp 3000)"
proof -
  have t: "cond_type met_condition = buyer_confirmation"
    and i: "isMet met_condition"
    and m: "metAt met_condition = Some (Timestamp 3000)"
    by (simp_all add: met_condition_def example_condition_def)
  show ?thesis
    using t i m
      buyer_confirmation_flips_back
        [of met_condition "example_escrow\<lparr>status := disputed\<rparr>" 9000 "Timestamp 3000"]
    by simp
qed


subsection \<open>Guards of the seller's and the buyer's actions\<close>

text \<open>
  Claim C8. \<open>markAsShipped\<close> by a caller who is not the transaction's seller, and
  \<open>confirmReceipt\<close> by a caller who is not its buyer, fail with \<open>Unauthorized\<close>; by the
  right caller in a status other than \<open>payment_received\<close> (shipping), or other than
  \<open>shipped\<close>, \<open>in_transit\<close>, \<open>delivered\<close> (confirmation), they fail with the
  invalid-status error of the operation. The identity is checked first. Each failure
  returns the store as it was.
\<close>

theorem ship_and_confirm_guards:
  assumes "escrow_transactions w escrowId = Some e"
  shows "(sellerId e \<noteq> seller \<longrightarrow>
            markAsShipped env now escrowId seller trackingData w = (Failure ''Unauthorized'', w))
       \<and> (sellerId e = seller \<and> status e \<noteq> payment_received \<longrightarrow>
            markAsShipped env now escrowId seller trackingData w
              = (Failure ''Invalid status for shipping'', w))
       \<and> (buyerId e \<noteq> buyer \<longrightarrow>
            confirmReceipt env now escrowId buyer w = (Failure ''Unauthorized'', w))
       \<and> (buyerId e = buyer \<and> status e \<notin> {shipped, in_transit, delivered} \<longrightarrow>
            confirmReceipt env now escrowId buyer w
              = (Failure ''Item must be delivered before confirming'', w))"
  using assms by (simp add: markAsShipped_def confirmReceipt_def)

theorem ship_and_confirm_guards_witness:
  "markAsShipped example_env 0 ''escrow1'' ''mallory'' example_tracking
      (world_with example_escrow) = (Failure ''Unauthorized'', world_with example_escrow)
   \<and> markAsShipped example_env 0 ''escrow1'' ''seller1'' example_tracking
      (world_with example_escrow)
      = (Failure ''Invalid status for shipping'', world_with example_escrow)
   \<and> confirmReceipt example_env 0 ''escrow1'' ''mallory'' (world_with example_escrow)
      = (Failure ''Unauthorized'', world_with example_escrow)
   \<and> confirmReceipt example_env 0 ''escrow1'' ''buyer1''
      (world_with (example_escrow\<lparr>status := confirmed\<rparr>))
      = (Failure ''Item must be delivered before confirming'',
         world_with (example_escrow\<lparr>status := confirmed\<rparr>))"
proof -
  have l: "escrow_transactions (world_with d) ''escrow1'' = Some d" for d
    by (simp add: world_with_def)
  show ?thesis
    using
      ship_and_confirm_guards [OF l [of example_escrow],
        where seller = "''mallory''" and buyer = "''mallory''"
          and env = example_env and now = 0 and trackingData = example_tracking]
      ship_and_confirm_guards [OF l [of example_escrow],
        where seller = "''seller1''" and buyer = "''mallory''"
          and env = example_env and now = 0 and trackingData = example_tracking]
      ship_and_confirm_guards [OF l [of "example_escrow\<lparr>status := confirmed\<rparr>"],
        where seller = "''seller1''"
          and buyer = "''buyer1''" and env = example_env and now = 0
          and trackingData = example_tracking]
    by (simp add: example_escrow_def)
qed

text \<open>
  Claim C5. For a transaction with a stored dispute deadline and a status among
  \<open>shipped\<close>, \<open>in_transit\<close>, \<open>delivered\<close>, \<open>confirmed\<close>, \<open>openDispute\<close> by its buyer
  succeeds when \<open>now\<close> is before the deadline (and at the deadline itself): the status
  becomes \<open>disputed\<close>, the history, the reason and the time are recorded and one event is
  logged. When \<open>now\<close> is after the deadline it fails with
  \<open>Dispute period has expired\<close> and returns the store as it was.
\<close>

theorem dispute_deadline:
  assumes "escrow_transactions w escrowId = Some e"
    and "buyerId e = buyer"
    and "status e \<in> {shipped, in_transit, delivered, confirmed}"
    and "disputePeriodEndsAt e = Some (Timestamp deadline)"
  shows "(now \<le> deadline \<longrightarrow>
            openDispute now escrowId buyer reason w =
              (Success,
               logEscrowEvent escrowId ''disputed'' ''buyer''
                 (w\<lparr>escrow_transactions := (escrow_transactions w)(escrowId \<mapsto>
                      e\<lparr>status := disputed,
                        statusHistory := statusHistory e @
                          [history_entry disputed now ''buyer'' reason],
                        disputeReason := Some reason,
                        disputedAt := Some (Timestamp now)\<rparr>)\<rparr>)))
       \<and> (deadline < now \<longrightarrow>
            openDispute now escrowId buyer reason w = (Failure ''Dispute period has expired'', w))"
  using assms by (auto simp add: openDispute_def updateDocument_def Let_def)

theorem dispute_deadline_witness:
  "disputePeriodEndsAt example_escrow = Some (Timestamp 10000)
   \<and> status example_escrow = shipped
   \<and> fst (openDispute 9000 ''escrow1'' ''buyer1'' ''Not as described''
            (world_with example_escrow)) = Success
   \<and> map_option status
       (escrow_transactions
          (snd (openDispute 9000 ''escrow1'' ''buyer1'' ''Not as described''
                  (world_with example_escrow))) ''escrow1'') = Some disputed
   \<and> openDispute 11000 ''escrow1'' ''buyer1'' ''Not as described'' (world_with example_escrow)
       = (Failure ''Dispute period has expired'', world_with example_escrow)"
proof -
  have l: "escrow_transactions (world_with example_escrow) ''escrow1'' = Some example_escrow"
    by (simp add: world_with_def)
  have b: "buyerId example_escrow = ''buyer1''"
    and s: "status example_escrow \<in> {shipped, in_transit, delivered, confirmed}"
    and d: "disputePeriodEndsAt example_escrow = Some (Timestamp 10000)"
    by (simp_all add: example_escrow_def)
  show ?thesis
    using d
      dispute_deadline [OF l b s d, of 9000 "''Not as described''"]
      dispute_deadline [OF l b s d, of 11000 "''Not as described''"]
    by (simp add: logEscrowEvent_def example_escrow_def)
qed

subsection \<open>Release\<close>

lemma release_success_marks_released:
  assumes "releaseFundsToSeller env now escrowId w = (Success, w')"
  shows "\<exists>e'. escrow_transactions w' escrowId = Some e' \<and> status e' = released"
  using assms
  by (auto simp add: releaseFundsToSeller_def updateDocument_def logEscrowEvent_def Let_def
      split: option.splits if_splits sum.splits)

lemma release_payouts:
  "length (stripe_payouts (snd (releaseFundsToSeller env now escrowId w))) =
     length (stripe_payouts w)
       + (if fst (releaseFundsToSeller env now escrowId w) = Success then 1 else 0)"
  by (auto simp add: releaseFundsToSeller_def updateDocument_def logEscrowEvent_def Let_def
      split: option.splits sum.splits)

lemma release_refused:
  assumes "escrow_transactions w escrowId = Some e"
    and "\<not> allConditionsMet e \<or> status e = released \<or> status e = refunded"
  shows "releaseFundsToSeller env now escrowId w =
           (Failure (if \<not> allConditionsMet e then ''Not all conditions are met''
                     else ''Funds already released or refunded''), w)"
  using assms by (auto simp add: releaseFundsToSeller_def)

lemma no_success_once_released:
  assumes "escrow_transactions w escrowId = Some e" and "status e = released"
  shows "Success \<notin> set (fst (release_calls calls escrowId w))"
proof (induction calls)
  case Nil
  show ?case by simp
next
  case (Cons c calls)
  obtain env now where c: "c = (env, now)" by (cases c)
  from release_refused [OF assms(1), of env now] assms(2)
  obtain msg where "releaseFundsToSeller env now escrowId w = (Failure msg, w)" by blast
  with Cons c show ?case by (simp add: split_beta)
qed

lemma at_most_one_success:
  "length (filter (\<lambda>r. r = Success) (fst (release_calls calls escrowId w))) \<le> 1"
proof (induction calls arbitrary: w)
  case Nil
  show ?case by simp
next
  case (Cons c calls)
  obtain env now where c: "c = (env, now)" by (cases c)
  obtain r w1 where r: "releaseFundsToSeller env now escrowId w = (r, w1)" by force
  show ?case
  proof (cases "r = Success")
    case True
    with r release_success_marks_released obtain e' where
      "escrow_transactions w1 escrowId = Some e'" "status e' = released" by blast
    then have "Success \<notin> set (fst (release_calls calls escrowId w1))"
      by (rule no_success_once_released)
    then have "filter (\<lambda>r. r = Success) (fst (release_calls calls escrowId w1)) = []"
      by (auto simp add: filter_empty_conv)
    with True r c show ?thesis by (simp add: split_beta)
  next
    case False
    with r c Cons [of w1] show ?thesis by (simp add: split_beta)
  qed
qed

lemma payouts_count_successes:
  "length (stripe_payouts (snd (release_calls calls escrowId w))) =
     length (stripe_payouts w)
       + length (filter (\<lambda>r. r = Success) (fst (release_calls calls escrowId w)))"
proof (induction calls arbitrary: w)
  case Nil
  show ?case by simp
next
  case (Cons c calls)
  obtain env now where c: "c = (env, now)" by (cases c)
  from Cons [of "snd (releaseFundsToSeller env now escrowId w)"]
    release_payouts [of env now escrowId w] c
  show ?case by (simp add: split_beta)
qed

text \<open>
  Claim C4. A call of \<open>releaseFundsToSeller\<close> for a transaction whose
  \<open>allConditionsMet\<close> flag is false, or whose status is \<open>released\<close> or \<open>refunded\<close>,
  returns a failure and the state as it was: no transfer, no payout, no write. And in any
  sequence of calls for one transaction, from any state, at most one call succeeds and at
  most one payout is made.
\<close>

theorem release_precondition:
  assumes "escrow_transactions w escrowId = Some e"
    and "\<not> allConditionsMet e \<or> status e = released \<or> status e = refunded"
  shows "releaseFundsToSeller env now escrowId w =
           (Failure (if \<not> allConditionsMet e then ''Not all conditions are met''
                     else ''Funds already released or refunded''), w)
       \<and> length (filter (\<lambda>r. r = Success) (fst (release_calls calls escrowId w0))) \<le> 1
       \<and> length (stripe_payouts (snd (release_calls calls escrowId w0)))
           \<le> length (stripe_payouts w0) + 1"
  using release_refused [OF assms] at_most_one_success [of calls escrowId w0]
    payouts_count_successes [of calls escrowId w0]
  by simp

theorem release_precondition_witness:
  "releaseFundsToSeller example_env 0 ''escrow1''
      (world_with (example_escrow\<lparr>status := refunded\<rparr>))
     = (Failure ''Funds already released or refunded'',
        world_with (example_escrow\<lparr>status := refunded\<rparr>))
   \<and> releaseFundsToSeller example_env 0 ''escrow1''
      (world_with (example_escrow\<lparr>allConditionsMet := False\<rparr>))
     = (Failure ''Not all conditions are met'',
        world_with (example_escrow\<lparr>allConditionsMet := False\<rparr>))
   \<and> length (filter (\<lambda>r. r = Success)
       (fst (release_calls [(payout_fails_env, 1), (retry_env, 2), (example_env, 3)]
               ''escrow1'' (world_with example_escrow)))) \<le> 1"
proof -
  have l: "escrow_transactions (world_with d) ''escrow1'' = Some d" for d
    by (simp add: world_with_def)
  show ?thesis
    using
      release_precondition [OF l [of "example_escrow\<lparr>status := refunded\<rparr>"],
        where env = example_env and now = 0
          and calls = "[(payout_fails_env, 1), (retry_env, 2), (example_env, 3)]"
          and ?w0.0 = "world_with example_escrow"]
      release_precondition [OF l [of "example_escrow\<lparr>allConditionsMet := False\<rparr>"],
        where env = example_env
          and now = 0 and calls = "[]" and ?w0.0 = "world_with example_escrow"]
    by (simp add: example_escrow_def)
qed

text \<open>
  Claim C3, as stated, fails on the digital-goods transaction of the example, evaluated
  on the third day with a payment rail whose payout fails: the stored document is still
  \<open>confirmed\<close> with no transfer identifier, although the transfer \<open>tr_1\<close> has been
  made; and the next call of \<open>releaseFundsToSeller\<close> makes a second transfer, \<open>tr_2\<close>.
\<close>

theorem partial_failure_counterexample:
  "map_option (\<lambda>d. (status d, allConditionsMet d, stripeTransferId d))
     (escrow_transactions world_payout_failed ''escrow1'') = Some (confirmed, True, None)
   \<and> map transfer_id (stripe_transfers world_payout_failed) = [''tr_1'']
   \<and> map transfer_id
       (stripe_transfers
          (snd (releaseFundsToSeller retry_env (three_days + 1000) ''escrow1''
                  world_payout_failed))) = [''tr_1'', ''tr_2'']"
  by code_simp

text \<open>
  Claim C3, amended. When the transfer succeeds and the payout fails,
  \<open>releaseFundsToSeller\<close> returns the payout's error and writes nothing: the transaction
  is not marked \<open>released\<close>, and the identifier of the transfer that was made is not
  stored. A retry whose transfer call succeeds makes that transfer again.
\<close>

theorem payout_failure_keeps_nothing:
  assumes "escrow_transactions w escrowId = Some e"
    and "allConditionsMet e"
    and "status e \<noteq> released \<and> status e \<noteq> refunded"
    and "transfers_create env = Inr transferId"
    and "payouts_create env = Inl err"
    and "transfers_create env' = Inr transferId'"
  shows "releaseFundsToSeller env now escrowId w =
           (Failure err,
            w\<lparr>stripe_transfers := stripe_transfers w @ [made_transfer transferId escrowId e]\<rparr>)
       \<and> stripe_transfers
            (snd (releaseFundsToSeller env' now' escrowId
                    (snd (releaseFundsToSeller env now escrowId w))))
          = stripe_transfers w @
              [made_transfer transferId escrowId e, made_transfer transferId' escrowId e]"
  using assms
  by (auto simp add: releaseFundsToSeller_def updateDocument_def
      logEscrowEvent_def Let_def split: sum.splits)

theorem payout_failure_keeps_nothing_witness:
  "allConditionsMet example_escrow
   \<and> status example_escrow = shipped
   \<and> fst (releaseFundsToSeller payout_fails_env 0 ''escrow1'' (world_with example_escrow))
       = Failure ''payout failed''
   \<and> escrow_transactions
       (snd (releaseFundsToSeller payout_fails_env 0 ''escrow1'' (world_with example_escrow)))
       ''escrow1'' = Some example_escrow
   \<and> map transfer_id
       (stripe_transfers
          (snd (releaseFundsToSeller retry_env 1 ''escrow1''
                  (snd (releaseFundsToSeller payout_fails_env 0 ''escrow1''
                          (world_with example_escrow)))))) = [''tr_1'', ''tr_2'']"
proof -
  have l: "escrow_transactions (world_with example_escrow) ''escrow1'' = Some example_escrow"
    by (simp add: world_with_def)
  have a: "allConditionsMet example_escrow"
    and s: "status example_escrow \<noteq> released \<and> status example_escrow \<noteq> refunded"
    and s': "status example_escrow = shipped"
    by (simp_all add: example_escrow_def)
  have t: "transfers_create payout_fails_env = Inr ''tr_1''"
    and p: "payouts_create payout_fails_env = Inl ''payout failed''"
    and t': "transfers_create retry_env = Inr ''tr_2''"
    by (simp_all add: payout_fails_env_def retry_env_def example_env_def)
  have empty: "stripe_transfers (world_with example_escrow) = []"
    by (simp add: world_with_def initial_world_def)
  note k = payout_failure_keeps_nothing [OF l a s t p t', of 0 1]
  from k have first:
    "releaseFundsToSeller payout_fails_env 0 ''escrow1'' (world_with example_escrow) =
       (Failure ''payout failed'',
        (world_with example_escrow)\<lparr>stripe_transfers :=
           stripe_transfers (world_with example_escrow)
             @ [made_transfer ''tr_1'' ''escrow1'' example_escrow]\<rparr>)"
    by (rule conjunct1)
  from k have second:
    "stripe_transfers
       (snd (releaseFundsToSeller retry_env 1 ''escrow1''
               (snd (releaseFundsToSeller payout_fails_env 0 ''escrow1''
                       (world_with example_escrow)))))
     = stripe_transfers (world_with example_escrow)
         @ [made_transfer ''tr_1'' ''escrow1'' example_escrow,
            made_transfer ''tr_2'' ''escrow1'' example_escrow]"
    by (rule conjunct2)
  have c3: "fst (releaseFundsToSeller payout_fails_env 0 ''escrow1''
                   (world_with example_escrow)) = Failure ''payout failed''"
    by (simp only: first fst_conv)
  have c4: "escrow_transactions
       (snd (releaseFundsToSeller payout_fails_env 0 ''escrow1'' (world_with example_escrow)))
       ''escrow1'' = Some example_escrow"
    by (simp add: first l)
  have c5: "map transfer_id
       (stripe_transfers
          (snd (releaseFundsToSeller retry_env 1 ''escrow1''
                  (snd (releaseFundsToSeller payout_fails_env 0 ''escrow1''
                          (world_with example_escrow)))))) = [''tr_1'', ''tr_2'']"
    by (simp add: second empty made_transfer_def)
  from a s' c3 c4 c5 show ?thesis by blast
qed


subsection \<open>Evaluation of all conditions\<close>

lemma evaluate_when_released:
  assumes "escrow_transactions w escrowId = Some e" and "status e = released"
  shows "evaluateSettlementConditions env now escrowId w =
           (\<lparr>result_allConditionsMet =
                list_all isMet (map (\<lambda>c. evaluateCondition c e now) (settlementConditions e)),
              result_unmetConditions =
                map description (filter (\<lambda>c. \<not> isMet c)
                  (map (\<lambda>c. evaluateCondition c e now) (settlementConditions e))),
              result_released = Some False\<rparr>,
            w\<lparr>escrow_transactions := (escrow_transactions w)(escrowId \<mapsto>
                 e\<lparr>settlementConditions :=
                      map (\<lambda>c. evaluateCondition c e now) (settlementConditions e),
                    allConditionsMet :=
                      list_all isMet
                        (map (\<lambda>c. evaluateCondition c e now) (settlementConditions e))\<rparr>)\<rparr>)"
  using assms by (simp add: evaluateSettlementConditions_def updateDocument_def Let_def)

lemma evaluate_calls_when_released:
  assumes "escrow_transactions w escrowId = Some e" and "status e = released"
  shows "list_all (\<lambda>r. result_released r = Some False) (fst (evaluate_calls calls escrowId w))
       \<and> stripe_transfers (snd (evaluate_calls calls escrowId w)) = stripe_transfers w
       \<and> stripe_payouts (snd (evaluate_calls calls escrowId w)) = stripe_payouts w
       \<and> stripe_refunds (snd (evaluate_calls calls escrowId w)) = stripe_refunds w
       \<and> escrow_events (snd (evaluate_calls calls escrowId w)) = escrow_events w
       \<and> map_option status (escrow_transactions (snd (evaluate_calls calls escrowId w)) escrowId)
           = Some released"
  using assms
proof (induction calls arbitrary: w e)
  case Nil
  then show ?case by simp
next
  case (Cons c calls)
  obtain env now where c: "c = (env, now)" by (cases c)
  define ev where "ev = map (\<lambda>c. evaluateCondition c e now) (settlementConditions e)"
  define e1 where "e1 = e\<lparr>settlementConditions := ev, allConditionsMet := list_all isMet ev\<rparr>"
  define w1 where "w1 = w\<lparr>escrow_transactions := (escrow_transactions w)(escrowId \<mapsto> e1)\<rparr>"
  have step: "snd (evaluateSettlementConditions env now escrowId w) = w1"
    and res: "result_released (fst (evaluateSettlementConditions env now escrowId w)) = Some False"
    using evaluate_when_released [OF Cons.prems, of env now]
    by (simp_all add: w1_def e1_def ev_def)
  have l1: "escrow_transactions w1 escrowId = Some e1" by (simp add: w1_def)
  have s1: "status e1 = released" using Cons.prems(2) by (simp add: e1_def)
  have same: "stripe_transfers w1 = stripe_transfers w" "stripe_payouts w1 = stripe_payouts w"
    "stripe_refunds w1 = stripe_refunds w" "escrow_events w1 = escrow_events w"
    by (simp_all add: w1_def)
  from Cons.IH [OF l1 s1] step res same c show ?case
    by (simp add: split_beta)
qed

text \<open>
  Claim C2, as stated, fails on the digital-goods transaction of the example after its
  release on the third day: it is stored \<open>released\<close> with \<open>allConditionsMet = true\<close> and
  both conditions met; one more evaluation reports \<open>allConditionsMet = false\<close> and
  overwrites the stored flag and the stored \<open>isMet\<close> of the buyer confirmation.
\<close>

theorem released_evaluation_counterexample:
  "map_option (\<lambda>d. (status d, allConditionsMet d, map isMet (settlementConditions d)))
     (escrow_transactions world_released ''escrow1'') = Some (released, True, [True, True])
   \<and> result_allConditionsMet
       (fst (evaluateSettlementConditions example_env (three_days + 1000) ''escrow1''
               world_released)) = False
   \<and> map_option (\<lambda>d. (status d, allConditionsMet d, map isMet (settlementConditions d)))
       (escrow_transactions
          (snd (evaluateSettlementConditions example_env (three_days + 1000) ''escrow1''
                  world_released)) ''escrow1'') = Some (released, False, [False, True])"
  by code_simp

text \<open>
  Claim C2, amended. For a transaction whose status is \<open>released\<close>, a call of
  \<open>evaluateSettlementConditions\<close> attempts no release and reports \<open>released = false\<close>;
  it is not a no-op on the store: it evaluates every condition again, writes the
  evaluated list and the recomputed \<open>allConditionsMet\<close> flag back, and reports that flag
  (true exactly when every evaluated condition is met). Called any number of times, it
  leaves the status \<open>released\<close> and adds no transfer, payout, refund or event.
\<close>

theorem released_evaluation_never_releases:
  assumes "escrow_transactions w escrowId = Some e" and "status e = released"
  shows "evaluateSettlementConditions env now escrowId w =
           (\<lparr>result_allConditionsMet =
                list_all isMet (map (\<lambda>c. evaluateCondition c e now) (settlementConditions e)),
              result_unmetConditions =
                map description (filter (\<lambda>c. \<not> isMet c)
                  (map (\<lambda>c. evaluateCondition c e now) (settlementConditions e))),
              result_released = Some False\<rparr>,
            w\<lparr>escrow_transactions := (escrow_transactions w)(escrowId \<mapsto>
                 e\<lparr>settlementConditions :=
                      map (\<lambda>c. evaluateCondition c e now) (settlementConditions e),
                    allConditionsMet :=
                      list_all isMet
                        (map (\<lambda>c. evaluateCondition c e now) (settlementConditions e))\<rparr>)\<rparr>)
       \<and> list_all (\<lambda>r. result_released r = Some False) (fst (evaluate_calls calls escrowId w))
       \<and> stripe_transfers (snd (evaluate_calls calls escrowId w)) = stripe_transfers w
       \<and> stripe_payouts (snd (evaluate_calls calls escrowId w)) = stripe_payouts w
       \<and> stripe_refunds (snd (evaluate_calls calls escrowId w)) = stripe_refunds w
       \<and> escrow_events (snd (evaluate_calls calls escrowId w)) = escrow_events w
       \<and> map_option status (escrow_transactions (snd (evaluate_calls calls escrowId w)) escrowId)
           = Some released"
  using evaluate_when_released [OF assms] evaluate_calls_when_released [OF assms] by blast

theorem released_evaluation_never_releases_witness:
  "status released_example = released
   \<and> result_released
       (fst (evaluateSettlementConditions example_env 5000 ''escrow1''
               (world_with released_example))) = Some False
   \<and> list_all (\<lambda>r. result_released r = Some False)
       (fst (evaluate_calls [(example_env, 5000), (retry_env, 6000)] ''escrow1''
               (world_with released_example)))
   \<and> stripe_transfers
       (snd (evaluate_calls [(example_env, 5000), (retry_env, 6000)] ''escrow1''
               (world_with released_example))) = []
   \<and> map_option status
       (escrow_transactions
          (snd (evaluate_calls [(example_env, 5000), (retry_env, 6000)] ''escrow1''
                  (world_with released_example))) ''escrow1'') = Some released"
proof -
  have l: "escrow_transactions (world_with released_example) ''escrow1''
             = Some released_example"
    by (simp add: world_with_def)
  have s: "status released_example = released"
    by (simp add: released_example_def)
  have empty: "stripe_transfers (world_with released_example) = []"
    by (simp add: world_with_def initial_world_def)
  note k = released_evaluation_never_releases [OF l s,
      of example_env 5000 "[(example_env, 5000), (retry_env, 6000)]"]
  from k have "evaluateSettlementConditions example_env 5000 ''escrow1''
        (world_with released_example) =
      (\<lparr>result_allConditionsMet =
           list_all isMet (map (\<lambda>c. evaluateCondition c released_example 5000)
             (settlementConditions released_example)),
         result_unmetConditions =
           map description (filter (\<lambda>c. \<not> isMet c)
             (map (\<lambda>c. evaluateCondition c released_example 5000)
               (settlementConditions released_example))),
         result_released = Some False\<rparr>,
       (world_with released_example)\<lparr>escrow_transactions :=
          (escrow_transactions (world_with released_example))(''escrow1'' \<mapsto>
             released_example\<lparr>settlementConditions :=
                 map (\<lambda>c. evaluateCondition c released_example 5000)
                   (settlementConditions released_example),
               allConditionsMet :=
                 list_all isMet (map (\<lambda>c. evaluateCondition c released_example 5000)
                   (settlementConditions released_example))\<rparr>)\<rparr>)"
    by (rule conjunct1)
  then have c2: "result_released
       (fst (evaluateSettlementConditions example_env 5000 ''escrow1''
               (world_with released_example))) = Some False"
    by simp
  from k have c3: "list_all (\<lambda>r. result_released r = Some False)
       (fst (evaluate_calls [(example_env, 5000), (retry_env, 6000)] ''escrow1''
               (world_with released_example)))"
    by blast
  from k have "stripe_transfers
       (snd (evaluate_calls [(example_env, 5000), (retry_env, 6000)] ''escrow1''
               (world_with released_example))) = stripe_transfers (world_with released_example)"
    by blast
  then have c4: "stripe_transfers
       (snd (evaluate_calls [(example_env, 5000), (retry_env, 6000)] ''escrow1''
               (world_with released_example))) = []"
    using empty by (rule trans)
  from k have c5: "map_option status
       (escrow_transactions
          (snd (evaluate_calls [(example_env, 5000), (retry_env, 6000)] ''escrow1''
                  (world_with released_example))) ''escrow1'') = Some released"
    by blast
  from s c2 c3 c4 c5 show ?thesis by blast
qed

text \<open>
  Claim C1 is what the repository documents (\<open>required: false // OR logic\<close>, only one
  needs to be met), and it is not what \<open>evaluateSettlementConditions\<close> computes: the
  reported flag is the conjunction over all conditions, and \<open>required\<close> is never read.
  The physical-goods transaction of the example has three conditions, none marked
  \<open>required\<close>; the buyer has confirmed and the fifteenth day has come, so two of them
  are met and the documented rule holds, yet the evaluation reports
  \<open>allConditionsMet = false\<close> and releases nothing.
\<close>

theorem aggregation_is_conjunction:
  "result_allConditionsMet (fst (evaluateSettlementConditions env now escrowId w)) =
     (case escrow_transactions w escrowId of
        None \<Rightarrow> False
      | Some e \<Rightarrow> list_all (\<lambda>c. switch_isMet c e now) (settlementConditions e))
   \<and> map_option (\<lambda>d. (status d, map required (settlementConditions d)))
       (escrow_transactions (world_confirmed physical_goods) ''escrow1'')
       = Some (confirmed, [None, None, None])
   \<and> fst (evaluateSettlementConditions example_env fifteen_days ''escrow1''
            (world_confirmed physical_goods))
       = \<lparr>result_allConditionsMet = False,
          result_unmetConditions =
            [''Seller must provide tracking and item must be delivered''],
          result_released = Some False\<rparr>
   \<and> stripe_transfers
       (snd (evaluateSettlementConditions example_env fifteen_days ''escrow1''
               (world_confirmed physical_goods))) = []
   \<and> map_option (\<lambda>d. (map isMet (settlementConditions d),
                       spec_settleable (settlementConditions d)))
       (escrow_transactions
          (snd (evaluateSettlementConditions example_env fifteen_days ''escrow1''
                  (world_confirmed physical_goods))) ''escrow1'')
       = Some ([False, True, True], True)"
proof -
  have general: "result_allConditionsMet (fst (evaluateSettlementConditions env now escrowId w)) =
     (case escrow_transactions w escrowId of
        None \<Rightarrow> False
      | Some e \<Rightarrow> list_all (\<lambda>c. switch_isMet c e now) (settlementConditions e))"
    by (simp add: evaluateSettlementConditions_def Let_def split_beta list_all_iff
        split: option.splits)
  have a: "map_option (\<lambda>d. (status d, map required (settlementConditions d)))
       (escrow_transactions (world_confirmed physical_goods) ''escrow1'')
       = Some (confirmed, [None, None, None])"
    by code_simp
  have b: "fst (evaluateSettlementConditions example_env fifteen_days ''escrow1''
            (world_confirmed physical_goods))
       = \<lparr>result_allConditionsMet = False,
          result_unmetConditions =
            [''Seller must provide tracking and item must be delivered''],
          result_released = Some False\<rparr>"
    by code_simp
  have c: "stripe_transfers
       (snd (evaluateSettlementConditions example_env fifteen_days ''escrow1''
               (world_confirmed physical_goods))) = []"
    by code_simp
  have d: "map_option (\<lambda>d. (map isMet (settlementConditions d),
                       spec_settleable (settlementConditions d)))
       (escrow_transactions
          (snd (evaluateSettlementConditions example_env fifteen_days ''escrow1''
                  (world_confirmed physical_goods))) ''escrow1'')
       = Some ([False, True, True], True)"
    by code_simp
  from general a b c d show ?thesis by blast
qed


subsection \<open>Rounding to a double\<close>

lemma round_half_even_of_int [simp]: "round_half_even (of_int k) = k"
  by (simp add: round_half_even_def)

lemma round_half_even_error: "\<bar>of_int (round_half_even q) - q\<bar> \<le> 1 / 2"
proof -
  have "of_int \<lfloor>q\<rfloor> \<le> q" "q < of_int \<lfloor>q\<rfloor> + 1" by linarith+
  then show ?thesis
    by (auto simp add: round_half_even_def Let_def)
qed

lemma round_half_even_nonneg: "0 \<le> q \<Longrightarrow> 0 \<le> round_half_even q"
  by (auto simp add: round_half_even_def Let_def)

text \<open>The exponent found from the bit lengths of numerator and denominator is not too
  large: the power of two it names is below the number.\<close>

lemma exponent_lower:
  assumes "x \<noteq> 0"
  shows "2 powi (exponent x) \<le> \<bar>x\<bar>"
proof -
  obtain a b where q: "quotient_of \<bar>x\<bar> = (a, b)" by force
  have b: "0 < b" using q by (rule quotient_of_denom_pos)
  have x: "\<bar>x\<bar> = of_int a / of_int b" using q by (rule quotient_of_div)
  have a: "0 < a"
  proof -
    have "0 < \<bar>x\<bar>" using assms by simp
    with x b show ?thesis by (simp add: zero_less_divide_iff)
  qed
  define d where "d = bitlen a - bitlen b"
  show ?thesis
  proof (cases "2 powi d \<le> \<bar>x\<bar>")
    case True
    then show ?thesis by (simp add: exponent_def q d_def)
  next
    case False
    have la: "1 \<le> bitlen a" using a by (simp add: bitlen_alt_def)
    have lb: "0 \<le> bitlen b" by (rule bitlen_nonneg)
    have "2 ^ nat (bitlen a - 1) \<le> a" using bitlen_bounds [OF a] by simp
    then have "(of_int (2 ^ nat (bitlen a - 1)) :: rat) \<le> of_int a"
      by (simp only: of_int_le_iff)
    then have A: "(2::rat) powi (bitlen a - 1) \<le> of_int a"
      using la by (simp add: power_int_def)
    have "b < 2 ^ nat (bitlen b)" using bitlen_bounds [OF b] by simp
    then have "(of_int b :: rat) < of_int (2 ^ nat (bitlen b))"
      by (simp only: of_int_less_iff)
    then have B: "(of_int b :: rat) \<le> 2 powi (bitlen b)"
      using lb by (simp add: power_int_def)
    have "(2::rat) powi (d - 1) = 2 powi (bitlen a - 1) / 2 powi (bitlen b)"
      by (simp add: d_def power_int_diff [symmetric] algebra_simps)
    also have "\<dots> \<le> of_int a / of_int b"
      using A B a b by (intro frac_le) simp_all
    finally have "(2::rat) powi (d - 1) \<le> \<bar>x\<bar>" using x by simp
    with False show ?thesis by (simp add: exponent_def q d_def)
  qed
qed

lemma exponent_upper:
  assumes "x \<noteq> 0"
  shows "\<bar>x\<bar> < 2 powi (exponent x + 1)"
proof -
  obtain a b where q: "quotient_of \<bar>x\<bar> = (a, b)" by force
  have b: "0 < b" using q by (rule quotient_of_denom_pos)
  have x: "\<bar>x\<bar> = of_int a / of_int b" using q by (rule quotient_of_div)
  have a: "0 < a"
  proof -
    have "0 < \<bar>x\<bar>" using assms by simp
    with x b show ?thesis by (simp add: zero_less_divide_iff)
  qed
  define d where "d = bitlen a - bitlen b"
  show ?thesis
  proof (cases "2 powi d \<le> \<bar>x\<bar>")
    case False
    then show ?thesis by (simp add: exponent_def q d_def)
  next
    case True
    have la: "0 \<le> bitlen a" by (rule bitlen_nonneg)
    have lb: "1 \<le> bitlen b" using b by (simp add: bitlen_alt_def)
    have "a < 2 ^ nat (bitlen a)" using bitlen_bounds [OF a] by simp
    then have "(of_int a :: rat) < of_int (2 ^ nat (bitlen a))"
      by (simp only: of_int_less_iff)
    then have A: "(of_int a :: rat) < 2 powi (bitlen a)"
      using la by (simp add: power_int_def)
    have "2 ^ nat (bitlen b - 1) \<le> b" using bitlen_bounds [OF b] by simp
    then have "(of_int (2 ^ nat (bitlen b - 1)) :: rat) \<le> of_int b"
      by (simp only: of_int_le_iff)
    then have B: "(2::rat) powi (bitlen b - 1) \<le> of_int b"
      using lb by (simp add: power_int_def)
    have "of_int a / of_int b < (2::rat) powi (bitlen a) / 2 powi (bitlen b - 1)"
      using A B a b by (intro frac_less) simp_all
    also have "\<dots> = 2 powi (d + 1)"
      by (simp add: d_def power_int_diff [symmetric] algebra_simps)
    finally have "\<bar>x\<bar> < 2 powi (d + 1)" using x by simp
    with True show ?thesis by (simp add: exponent_def q d_def)
  qed
qed

lemma powi_two_mono: "a \<le> b \<Longrightarrow> (2::rat) powi a \<le> 2 powi b"
  by (rule power_int_increasing) simp_all

text \<open>Rounding moves a number by at most half a unit in the last place.\<close>

lemma binary64_error:
  assumes "x \<noteq> 0"
  shows "\<bar>binary64 x - x\<bar> \<le> \<bar>x\<bar> / 2 + 1 / 2"
proof -
  define u :: rat where "u = 2 powi (max (exponent x - 52) (- 1074))"
  have u: "0 < u" by (simp add: u_def)
  have b: "binary64 x = of_int (round_half_even (x / u)) * u"
    using assms by (simp add: binary64_def u_def Let_def)
  have "binary64 x - x = (of_int (round_half_even (x / u)) - x / u) * u"
    using u by (simp add: b algebra_simps)
  then have "\<bar>binary64 x - x\<bar> = \<bar>of_int (round_half_even (x / u)) - x / u\<bar> * u"
    using u by (simp add: abs_mult)
  also have "\<dots> \<le> (1 / 2) * u"
    using round_half_even_error [of "x / u"] u by (intro mult_right_mono) simp_all
  finally have e: "\<bar>binary64 x - x\<bar> \<le> u / 2" by simp
  have "u \<le> \<bar>x\<bar> + 1"
  proof (cases "exponent x - 52 \<le> - 1074")
    case True
    then have "u = 2 powi (- 1074)" by (simp add: u_def max_def)
    also have "\<dots> \<le> 2 powi 0" by (rule powi_two_mono) simp
    finally show ?thesis by simp
  next
    case False
    then have "u = 2 powi (exponent x - 52)" by (simp add: u_def max_def)
    also have "\<dots> \<le> 2 powi (exponent x)" by (rule powi_two_mono) simp
    also have "\<dots> \<le> \<bar>x\<bar>" using assms by (rule exponent_lower)
    finally show ?thesis by simp
  qed
  with e show ?thesis by simp
qed

lemma binary64_bound: "\<bar>binary64 x\<bar> \<le> 2 * \<bar>x\<bar> + 1"
proof (cases "x = 0")
  case True
  then show ?thesis by (simp add: binary64_def)
next
  case False
  from binary64_error [OF False] show ?thesis by linarith
qed

lemma binary64_nonneg:
  assumes "0 \<le> x"
  shows "0 \<le> binary64 x"
proof (cases "x = 0")
  case True
  then show ?thesis by (simp add: binary64_def)
next
  case False
  define u :: rat where "u = 2 powi (max (exponent x - 52) (- 1074))"
  have u: "0 < u" by (simp add: u_def)
  have "0 \<le> x / u" using assms u by simp
  then have "0 \<le> round_half_even (x / u)" by (rule round_half_even_nonneg)
  then show ?thesis
    using False u by (simp add: binary64_def u_def [symmetric] Let_def)
qed

text \<open>A whole number below \<open>2 ^ 53\<close> in magnitude is a double.\<close>

lemma binary64_of_int:
  assumes "\<bar>n\<bar> < 2 ^ 53"
  shows "binary64 (of_int n) = of_int n"
proof (cases "n = 0")
  case True
  then show ?thesis by (simp add: binary64_def)
next
  case False
  define x :: rat where "x = of_int n"
  have x0: "x \<noteq> 0" using False by (simp add: x_def)
  define k where "k = max (exponent x - 52) (- 1074)"
  have "(2::rat) powi (exponent x) \<le> \<bar>x\<bar>" using x0 by (rule exponent_lower)
  also have "\<bar>x\<bar> < 2 powi 53"
  proof -
    have "(of_int \<bar>n\<bar> :: rat) < of_int (2 ^ 53)" using assms by (simp only: of_int_less_iff)
    then show ?thesis by (simp add: x_def)
  qed
  finally have "(2::rat) powi (exponent x) < 2 powi 53" .
  then have "exponent x < 53" by (rule power_int_le_imp_less_exp [rotated]) simp_all
  then have k: "k \<le> 0" by (simp add: k_def)
  have p: "(2::rat) powi k = 1 / 2 ^ nat (- k)"
    using k by (cases "k = 0") (auto simp add: power_int_def inverse_eq_divide power_one_over)
  have "x / 2 powi k = of_int (n * 2 ^ nat (- k))"
    by (simp add: p x_def)
  then have "round_half_even (x / 2 powi k) = n * 2 ^ nat (- k)"
    by (simp only: round_half_even_of_int)
  then have "of_int (round_half_even (x / 2 powi k)) * 2 powi k = x"
    by (simp add: p x_def)
  then show ?thesis
    using x0 by (simp add: binary64_def Let_def k_def x_def)
qed

lemma js_sub_of_int:
  assumes "\<bar>i - j\<bar> < 2 ^ 53"
  shows "js_sub (of_int i) (of_int j) = of_int (i - j)"
proof -
  have "js_sub (of_int i) (of_int j) = binary64 (of_int (i - j))"
    by (simp add: js_sub_def)
  also have "\<dots> = of_int (i - j)" using assms by (rule binary64_of_int)
  finally show ?thesis .
qed

subsection \<open>Fees\<close>

lemma fee_bounds:
  assumes "0 \<le> a" "a \<le> 10 ^ 12" "0 \<le> p" "p \<le> 100" "0 \<le> f" "f \<le> 10 ^ 12"
  shows "0 \<le> \<lfloor>js_add (js_mul a (js_div p 100)) f + 1 / 2\<rfloor>
       \<and> \<lfloor>js_add (js_mul a (js_div p 100)) f + 1 / 2\<rfloor> \<le> 15 * 10 ^ 12"
proof -
  define bp where "bp = binary64 (p / 100)"
  define m where "m = binary64 (a * bp)"
  define s where "s = binary64 (m + f)"
  have bp0: "0 \<le> bp" using assms by (simp add: bp_def binary64_nonneg)
  have "\<bar>bp\<bar> \<le> 2 * \<bar>p / 100\<bar> + 1" unfolding bp_def by (rule binary64_bound)
  with assms bp0 have bp3: "bp \<le> 3" by simp
  have m0: "0 \<le> m" using assms bp0 by (simp add: m_def binary64_nonneg)
  have "a * bp \<le> 10 ^ 12 * 3" using assms bp0 bp3 by (intro mult_mono) simp_all
  moreover have "0 \<le> a * bp" using assms bp0 by simp
  moreover have "\<bar>m\<bar> \<le> 2 * \<bar>a * bp\<bar> + 1" unfolding m_def by (rule binary64_bound)
  ultimately have mb: "m \<le> 6 * 10 ^ 12 + 1" using m0 by simp
  have s0: "0 \<le> s" using assms m0 by (simp add: s_def binary64_nonneg)
  have "\<bar>s\<bar> \<le> 2 * \<bar>m + f\<bar> + 1" unfolding s_def by (rule binary64_bound)
  with m0 mb assms s0 have sb: "s \<le> 14 * 10 ^ 12 + 3" by simp
  have "0 \<le> \<lfloor>s + 1 / 2\<rfloor>" using s0 by simp
  moreover have "\<lfloor>s + 1 / 2\<rfloor> \<le> 15 * 10 ^ 12"
  proof -
    have "s + 1 / 2 < of_int (15 * 10 ^ 12)" using sb by simp
    then have "\<lfloor>s + 1 / 2\<rfloor> < 15 * 10 ^ 12" by (simp only: floor_less_iff)
    then show ?thesis by simp
  qed
  ultimately show ?thesis
    by (simp add: s_def m_def bp_def js_add_def js_mul_def js_div_def)
qed

lemma sellerAmount_exact:
  assumes "0 \<le> A" "A \<le> 10 ^ 12"
    and "0 \<le> platformFeePercentage cfg" "platformFeePercentage cfg \<le> 100"
    and "0 \<le> platformFeeFixed cfg" "platformFeeFixed cfg \<le> 10 ^ 12"
    and "0 \<le> stripeFeePercentage cfg" "stripeFeePercentage cfg \<le> 100"
    and "0 \<le> stripeFeeFixed cfg" "stripeFeeFixed cfg \<le> 10 ^ 12"
  shows "calc_sellerAmount cfg (of_int A) =
           of_int A - calc_platformFee cfg (of_int A) - calc_stripeFee cfg (of_int A)"
proof -
  define pf where
    "pf = \<lfloor>js_add (js_mul (of_int A) (js_div (platformFeePercentage cfg) 100))
              (platformFeeFixed cfg) + 1 / 2\<rfloor>"
  define sf where
    "sf = \<lfloor>js_add (js_mul (of_int A) (js_div (stripeFeePercentage cfg) 100))
              (stripeFeeFixed cfg) + 1 / 2\<rfloor>"
  have a: "(0::rat) \<le> of_int A" "(of_int A :: rat) \<le> 10 ^ 12"
  proof -
    show "(0::rat) \<le> of_int A" using assms(1) by simp
    have "(of_int A :: rat) \<le> of_int (10 ^ 12)" using assms(2) by (simp only: of_int_le_iff)
    then show "(of_int A :: rat) \<le> 10 ^ 12" by simp
  qed
  have pfb: "0 \<le> pf \<and> pf \<le> 15 * 10 ^ 12"
    unfolding pf_def using a assms(3-6) by (intro fee_bounds)
  have sfb: "0 \<le> sf \<and> sf \<le> 15 * 10 ^ 12"
    unfolding sf_def using a assms(7-10) by (intro fee_bounds)
  have P: "calc_platformFee cfg (of_int A) = of_int pf"
    by (simp add: calc_platformFee_def Math_round_def pf_def)
  have S: "calc_stripeFee cfg (of_int A) = of_int sf"
    by (simp add: calc_stripeFee_def Math_round_def sf_def)
  have "\<bar>A - pf\<bar> < 2 ^ 53" using assms(1,2) pfb by (simp add: abs_less_iff)
  then have 1: "js_sub (of_int A) (of_int pf) = of_int (A - pf)" by (rule js_sub_of_int)
  have "\<bar>(A - pf) - sf\<bar> < 2 ^ 53" using assms(1,2) pfb sfb by (simp add: abs_less_iff)
  then have 2: "js_sub (of_int (A - pf)) (of_int sf) = of_int (A - pf - sf)"
    by (rule js_sub_of_int)
  have "calc_sellerAmount cfg (of_int A) = js_sub (js_sub (of_int A) (of_int pf)) (of_int sf)"
    by (simp only: calc_sellerAmount_def P S)
  also have "\<dots> = js_sub (of_int (A - pf)) (of_int sf)" by (simp only: 1)
  also have "\<dots> = of_int (A - pf - sf)" by (rule 2)
  also have "\<dots> = of_int A - of_int pf - of_int sf" by simp
  finally show ?thesis by (simp only: P S)
qed

lemma created_amounts:
  assumes "createEscrowTransaction env now buyer dat w = (Some doc, w')"
  shows "amount doc = data_amount dat
       \<and> platformFee doc = calc_platformFee (getPlatformConfig w) (data_amount dat)
       \<and> sellerAmount doc = calc_sellerAmount (getPlatformConfig w) (data_amount dat)"
  using assms
  by (auto simp add: createEscrowTransaction_def Let_def
      split: option.splits if_splits sum.splits)

text \<open>
  Claim C6, as stated, fails: the fee is not the rounding of the exactly computed
  \<open>A \<cdot> p / 100 + f\<close>. With the default rail fee of 2.9 percent plus 30 and the amount 7500 the
  code computes 247 where the formula gives \<open>round 247.5 = 248\<close>, also when the
  formula's own operators are evaluated as doubles in the order written,
  \<open>(A * p) / 100 + f\<close>. Reading \<open>p\<close> as the stored double instead of the decimal 2.9 does
  not save the formula: at the amount 500 the code computes 45 and the exact value
  rounds to 44.
\<close>

theorem fee_formula_counterexample:
  "calc_stripeFee default_config 7500 = 247
   \<and> round (7500 * (29 / 10) / 100 + 30 :: rat) = 248
   \<and> Math_round (js_add (js_div (js_mul 7500 (stripeFeePercentage default_config)) 100) 30)
       = 248
   \<and> calc_stripeFee default_config 500 = 45
   \<and> round (500 * stripeFeePercentage default_config / 100 + 30) = 44"
  by code_simp

text \<open>
  Claim C6, amended. The fees computed at creation are
  \<open>Math.round(A * (p / 100) + f)\<close> with every operator a double operation in that order
  (the quotient \<open>p / 100\<close> is rounded first), each a whole number; for an amount that is a
  whole number of cents up to \<open>10 ^ 12\<close>, percentages between 0 and 100 and fixed fees
  between 0 and \<open>10 ^ 12\<close>, the seller amount is exactly
  \<open>A - platformFee - stripeFee\<close>, so the three sum to \<open>A\<close>; the stored document carries
  the amount, the platform fee and the seller amount so computed; and for \<open>A = 45000\<close>
  with the default 2.5 percent plus 30 and 2.9 percent plus 30 the fees are 1155 and 1335.
\<close>

theorem fees_at_creation:
  assumes "0 \<le> A" "A \<le> 10 ^ 12"
    and "0 \<le> platformFeePercentage cfg" "platformFeePercentage cfg \<le> 100"
    and "0 \<le> platformFeeFixed cfg" "platformFeeFixed cfg \<le> 10 ^ 12"
    and "0 \<le> stripeFeePercentage cfg" "stripeFeePercentage cfg \<le> 100"
    and "0 \<le> stripeFeeFixed cfg" "stripeFeeFixed cfg \<le> 10 ^ 12"
  shows "calc_platformFee cfg (of_int A) =
           of_int \<lfloor>binary64 (binary64 (of_int A * binary64 (platformFeePercentage cfg / 100))
                          + platformFeeFixed cfg) + 1 / 2\<rfloor>
       \<and> calc_stripeFee cfg (of_int A) =
           of_int \<lfloor>binary64 (binary64 (of_int A * binary64 (stripeFeePercentage cfg / 100))
                          + stripeFeeFixed cfg) + 1 / 2\<rfloor>
       \<and> calc_sellerAmount cfg (of_int A) =
           of_int A - calc_platformFee cfg (of_int A) - calc_stripeFee cfg (of_int A)
       \<and> calc_platformFee cfg (of_int A) + calc_stripeFee cfg (of_int A)
           + calc_sellerAmount cfg (of_int A) = of_int A
       \<and> (createEscrowTransaction env now buyer dat w = (Some doc, w') \<longrightarrow>
            amount doc = data_amount dat
            \<and> platformFee doc = calc_platformFee (getPlatformConfig w) (data_amount dat)
            \<and> sellerAmount doc = calc_sellerAmount (getPlatformConfig w) (data_amount dat))
       \<and> calc_platformFee default_config 45000 = 1155
       \<and> calc_stripeFee default_config 45000 = 1335"
proof -
  have p: "calc_platformFee cfg (of_int A) =
           of_int \<lfloor>binary64 (binary64 (of_int A * binary64 (platformFeePercentage cfg / 100))
                          + platformFeeFixed cfg) + 1 / 2\<rfloor>"
    by (simp add: calc_platformFee_def Math_round_def js_add_def js_mul_def js_div_def)
  have s: "calc_stripeFee cfg (of_int A) =
           of_int \<lfloor>binary64 (binary64 (of_int A * binary64 (stripeFeePercentage cfg / 100))
                          + stripeFeeFixed cfg) + 1 / 2\<rfloor>"
    by (simp add: calc_stripeFee_def Math_round_def js_add_def js_mul_def js_div_def)
  have n: "calc_sellerAmount cfg (of_int A) =
           of_int A - calc_platformFee cfg (of_int A) - calc_stripeFee cfg (of_int A)"
    using assms by (rule sellerAmount_exact)
  then have t: "calc_platformFee cfg (of_int A) + calc_stripeFee cfg (of_int A)
           + calc_sellerAmount cfg (of_int A) = of_int A"
    by simp
  have e1: "calc_platformFee default_config 45000 = 1155" by code_simp
  have e2: "calc_stripeFee default_config 45000 = 1335" by code_simp
  from p s n t e1 e2 created_amounts [of env now buyer dat w doc w']
  show ?thesis by blast
qed

theorem fees_at_creation_witness:
  "calc_platformFee default_config 45000 = 1155
   \<and> calc_stripeFee default_config 45000 = 1335
   \<and> calc_sellerAmount default_config 45000 = 42510
   \<and> map_option (\<lambda>d. (amount d, platformFee d, sellerAmount d))
       (fst (createEscrowTransaction example_env 0 ''buyer1'' (example_data physical_goods)
               initial_world)) = Some (45000, 1155, 42510)"
proof -
  let ?created = "createEscrowTransaction example_env 0 ''buyer1''
                    (example_data physical_goods) initial_world"
  have h: "(0::int) \<le> 45000" "(45000::int) \<le> 10 ^ 12" by simp_all
  have c: "0 \<le> platformFeePercentage default_config"
    "platformFeePercentage default_config \<le> 100"
    "0 \<le> platformFeeFixed default_config" "platformFeeFixed default_config \<le> 10 ^ 12"
    "0 \<le> stripeFeePercentage default_config" "stripeFeePercentage default_config \<le> 100"
    "0 \<le> stripeFeeFixed default_config" "stripeFeeFixed default_config \<le> 10 ^ 12"
    by code_simp+
  have "fst ?created \<noteq> None" by code_simp
  then have cr: "?created = (Some (the (fst ?created)), snd ?created)"
    by (metis option.collapse prod.collapse)
  have g: "getPlatformConfig initial_world = default_config"
    by (simp add: getPlatformConfig_def initial_world_def)
  have d: "data_amount (example_data physical_goods) = 45000"
    by (simp add: example_data_def)
  note k = fees_at_creation [OF h c,
      where env = example_env and now = 0 and buyer = "''buyer1''"
        and dat = "example_data physical_goods" and w = initial_world
        and doc = "the (fst ?created)" and w' = "snd ?created"]
  from k have pf: "calc_platformFee default_config 45000 = 1155"
    and sf: "calc_stripeFee default_config 45000 = 1335" by blast+
  from k have "calc_sellerAmount default_config (of_int 45000) =
      of_int 45000 - calc_platformFee default_config (of_int 45000)
        - calc_stripeFee default_config (of_int 45000)" by blast
  with pf sf have sa: "calc_sellerAmount default_config 45000 = 42510" by simp
  from k cr have "amount (the (fst ?created)) = data_amount (example_data physical_goods)
     \<and> platformFee (the (fst ?created))
         = calc_platformFee (getPlatformConfig initial_world)
             (data_amount (example_data physical_goods))
     \<and> sellerAmount (the (fst ?created))
         = calc_sellerAmount (getPlatformConfig initial_world)
             (data_amount (example_data physical_goods))"
    by blast
  with g d pf sa have "amount (the (fst ?created)) = 45000
     \<and> platformFee (the (fst ?created)) = 1155
     \<and> sellerAmount (the (fst ?created)) = 42510"
    by simp
  with \<open>fst ?created \<noteq> None\<close> have "map_option (\<lambda>d. (amount d, platformFee d, sellerAmount d))
       (fst ?created) = Some (45000, 1155, 42510)"
    by (cases "fst ?created") simp_all
  with pf sf sa show ?thesis by blast
qed


end
